theory Spec2Isabelle
  imports Complex_Main "HOL-Library.Log_Nat"
begin

section \<open>JavaScript values used by the scoring functions\<close>

text \<open>
  The scoring functions of \<^verbatim>\<open>functions/index.js\<close> are plain JavaScript over Numbers and
  Strings. A Number is an IEEE 754 binary64 value. A finite Number is represented here by
  the rational it denotes; every arithmetic operation computes the exact rational result
  and rounds it to the nearest binary64 value, ties to the even significand, as the
  language prescribes. The two zeros are identified: no operation of these functions
  tells them apart (nothing is divided by a computed value).
\<close>

datatype jsnum = Fin rat | PosInf | NegInf | NaN

definition pow2 :: "int \<Rightarrow> rat" where
  "pow2 e = (if 0 \<le> e then 2 ^ nat e else 1 / 2 ^ nat (- e))"

text \<open>
  The binary exponent of a positive rational, \<open>pow2 (ilog2 x) \<le> x < pow2 (ilog2 x + 1)\<close>,
  from the number of binary digits (\<open>bitlen\<close>) of an integer.
\<close>

definition ilog2 :: "rat \<Rightarrow> int" where
  "ilog2 x = (if 1 \<le> x then bitlen \<lfloor>x\<rfloor> - 1 else - bitlen (\<lceil>1 / x\<rceil> - 1))"

definition round_half_even :: "rat \<Rightarrow> int" where
  "round_half_even x =
     (let f = \<lfloor>x\<rfloor>; d = x - of_int f
      in if d < 1 / 2 then f
         else if 1 / 2 < d then f + 1
         else if even f then f else f + 1)"

text \<open>
  Rounding to binary64: 53 significant bits, least exponent \<open>-1022\<close> (below it the spacing
  stays \<open>pow2 (-1074)\<close>: subnormal numbers), overflow to an infinity once the rounded
  magnitude reaches \<open>pow2 1024\<close>.
\<close>

definition dbl :: "rat \<Rightarrow> jsnum" where
  "dbl x =
     (if x = 0 then Fin 0
      else let e = max (ilog2 \<bar>x\<bar>) (- 1022);
               u = pow2 (e - 52);
               n = round_half_even (\<bar>x\<bar> / u)
           in if 1024 \<le> e \<or> (e = 1023 \<and> n = 2 ^ 53)
              then (if 0 < x then PosInf else NegInf)
              else Fin (sgn x * (of_int n * u)))"

text \<open>A decimal literal of the source text denotes the binary64 value nearest to it.\<close>

definition lit :: "rat \<Rightarrow> jsnum" where
  "lit x = dbl x"

definition is_NaN :: "jsnum \<Rightarrow> bool" where
  "is_NaN a = (case a of NaN \<Rightarrow> True | _ \<Rightarrow> False)"

definition is_zero :: "jsnum \<Rightarrow> bool" where
  "is_zero a = (case a of Fin x \<Rightarrow> x = 0 | _ \<Rightarrow> False)"

definition negative :: "jsnum \<Rightarrow> bool" where
  "negative a = (case a of Fin x \<Rightarrow> x < 0 | NegInf \<Rightarrow> True | _ \<Rightarrow> False)"

definition signed_inf :: "bool \<Rightarrow> jsnum" where
  "signed_inf neg = (if neg then NegInf else PosInf)"

text \<open>\<^verbatim>\<open>a * b\<close>\<close>

definition mul :: "jsnum \<Rightarrow> jsnum \<Rightarrow> jsnum" where
  "mul a b =
     (case (a, b) of
        (Fin x, Fin y) \<Rightarrow> dbl (x * y)
      | _ \<Rightarrow> if is_NaN a \<or> is_NaN b \<or> is_zero a \<or> is_zero b then NaN
             else signed_inf (negative a \<noteq> negative b))"

text \<open>\<^verbatim>\<open>a + b\<close> on Numbers\<close>

definition add :: "jsnum \<Rightarrow> jsnum \<Rightarrow> jsnum" where
  "add a b =
     (case (a, b) of
        (Fin x, Fin y) \<Rightarrow> dbl (x + y)
      | (Fin x, _) \<Rightarrow> b
      | (_, Fin y) \<Rightarrow> a
      | _ \<Rightarrow> if is_NaN a \<or> is_NaN b \<or> a \<noteq> b then NaN else a)"

definition neg :: "jsnum \<Rightarrow> jsnum" where
  "neg a = (case a of Fin x \<Rightarrow> Fin (- x) | PosInf \<Rightarrow> NegInf | NegInf \<Rightarrow> PosInf | NaN \<Rightarrow> NaN)"

text \<open>\<^verbatim>\<open>a - b\<close>\<close>

definition sub :: "jsnum \<Rightarrow> jsnum \<Rightarrow> jsnum" where
  "sub a b = add a (neg b)"

text \<open>
  \<^verbatim>\<open>a / b\<close>. The source divides by the literals 2 and 180 only; for a zero divisor the
  sign of the result is that of the dividend (a zero divisor is the positive zero here).
\<close>

definition divide :: "jsnum \<Rightarrow> jsnum \<Rightarrow> jsnum" where
  "divide a b =
     (case (a, b) of
        (Fin x, Fin y) \<Rightarrow>
          if y = 0 then (if x = 0 then NaN else signed_inf (x < 0)) else dbl (x / y)
      | (Fin x, _) \<Rightarrow> if is_NaN b then NaN else Fin 0
      | (_, Fin y) \<Rightarrow> if is_NaN a then NaN else signed_inf (negative a \<noteq> (y < 0))
      | _ \<Rightarrow> NaN)"

text \<open>\<^verbatim>\<open>a < b\<close> and \<^verbatim>\<open>a >= b\<close>: both are false as soon as one side is NaN.\<close>

definition less :: "jsnum \<Rightarrow> jsnum \<Rightarrow> bool" where
  "less a b =
     (case (a, b) of
        (NaN, _) \<Rightarrow> False
      | (_, NaN) \<Rightarrow> False
      | (Fin x, Fin y) \<Rightarrow> x < y
      | (NegInf, NegInf) \<Rightarrow> False
      | (NegInf, _) \<Rightarrow> True
      | (_, NegInf) \<Rightarrow> False
      | (PosInf, _) \<Rightarrow> False
      | (_, PosInf) \<Rightarrow> True)"

definition ge :: "jsnum \<Rightarrow> jsnum \<Rightarrow> bool" where
  "ge a b = (\<not> is_NaN a \<and> \<not> is_NaN b \<and> \<not> less a b)"

text \<open>\<^verbatim>\<open>Math.round\<close>: the nearest integer, a tie going towards \<open>+\<infinity>\<close>.\<close>

definition Math_round :: "jsnum \<Rightarrow> jsnum" where
  "Math_round a = (case a of Fin x \<Rightarrow> Fin (of_int \<lfloor>x + 1 / 2\<rfloor>) | _ \<Rightarrow> a)"

text \<open>\<^verbatim>\<open>Math.min\<close> of two Numbers.\<close>

definition Math_min :: "jsnum \<Rightarrow> jsnum \<Rightarrow> jsnum" where
  "Math_min a b = (if is_NaN a \<or> is_NaN b then NaN else if less b a then b else a)"

text \<open>
  A numeric argument of a scoring function is a Number or is absent (\<^verbatim>\<open>undefined\<close>,
  here \<open>None\<close>). In arithmetic and comparisons \<^verbatim>\<open>undefined\<close> converts to NaN; in a
  condition \<^verbatim>\<open>undefined\<close>, zero and NaN count as false.
\<close>

definition ToNumber :: "jsnum option \<Rightarrow> jsnum" where
  "ToNumber v = (case v of None \<Rightarrow> NaN | Some a \<Rightarrow> a)"

definition truthy_num :: "jsnum option \<Rightarrow> bool" where
  "truthy_num v = (case v of None \<Rightarrow> False | Some a \<Rightarrow> \<not> is_NaN a \<and> \<not> is_zero a)"

subsection \<open>Strings\<close>

text \<open>
  A String is a list of UTF-16 code units. The strings represented here are those of code
  units below 256, the characters of the blocks Basic Latin and Latin-1 Supplement. On
  them \<^verbatim>\<open>toLowerCase\<close> works character by character: each of the capital letters
  A to Z (65 to 90) and, in Latin-1, \<^verbatim>\<open>U+00C0\<close> to \<^verbatim>\<open>U+00DE\<close> without the multiplication
  sign \<^verbatim>\<open>U+00D7\<close>, becomes the small letter 32 places above it; every other character
  stays as it is.
\<close>

definition toLower_char :: "char \<Rightarrow> char" where
  "toLower_char c =
     (let n = (of_char c :: nat)
      in if (65 \<le> n \<and> n \<le> 90) \<or> (192 \<le> n \<and> n \<le> 222 \<and> n \<noteq> 215)
         then char_of (n + 32) else c)"

definition toLowerCase :: "string \<Rightarrow> string" where
  "toLowerCase s = map toLower_char s"

text \<open>\<^verbatim>\<open>s.replace(' ', '_')\<close> with a string pattern replaces the first occurrence only.\<close>

fun replace_space :: "string \<Rightarrow> string" where
  "replace_space [] = []"
| "replace_space (c # cs) =
     (if c = CHR '' '' then CHR ''_'' # cs else c # replace_space cs)"

text \<open>
  \<^verbatim>\<open>text.includes(pattern)\<close> on a String: whether \<open>pattern\<close> occurs in \<open>text\<close> as a
  contiguous run of characters. The empty pattern occurs in every text.
\<close>

fun starts_with :: "string \<Rightarrow> string \<Rightarrow> bool" where
  "starts_with s [] = True"
| "starts_with [] (p # ps) = False"
| "starts_with (c # cs) (p # ps) = (c = p \<and> starts_with cs ps)"

fun String_includes :: "string \<Rightarrow> string \<Rightarrow> bool" where
  "String_includes [] p = (p = [])"
| "String_includes (c # cs) p = (starts_with (c # cs) p \<or> String_includes cs p)"

definition digit_char :: "int \<Rightarrow> char" where
  "digit_char d = char_of (48 + d)"

text \<open>The decimal digits of a non-negative integer.\<close>

function dec :: "int \<Rightarrow> string" where
  "dec n = (if n < 10 then [digit_char n] else dec (n div 10) @ [digit_char (n mod 10)])"
  by pat_completeness auto
termination
  by (relation "measure nat") auto

declare dec.simps [simp del]

definition is_digit :: "char \<Rightarrow> bool" where
  "is_digit c = (let n = (of_char c :: nat) in 48 \<le> n \<and> n \<le> 57)"

definition dec_value :: "string \<Rightarrow> int" where
  "dec_value s = foldl (\<lambda>acc c. 10 * acc + (of_char c - 48)) 0 s"

text \<open>
  The text of a Number of magnitude \<open>10 ^ 21\<close> or more (\<^verbatim>\<open>Number::toString\<close>): the
  shortest decimal significand \<open>s\<close> of \<open>k\<close> digits whose value rounds to the Number,
  printed in exponent notation. \<open>N\<close> is the number of digits of the integer part.
\<close>

definition sci_try :: "rat \<Rightarrow> nat \<Rightarrow> nat \<Rightarrow> int option" where
  "sci_try x N k =
     (let p = 10 ^ (N - k);
          lo = \<lfloor>x / p\<rfloor>;
          hi = lo + 1;
          ok_lo = (dbl (of_int lo * p) = Fin x);
          ok_hi = (hi < 10 ^ k \<and> dbl (of_int hi * p) = Fin x);
          d_lo = x - of_int lo * p;
          d_hi = of_int hi * p - x
      in if ok_lo \<and> ok_hi
         then (if d_lo < d_hi then Some lo else if d_hi < d_lo then Some hi
               else if even lo then Some lo else Some hi)
         else if ok_lo then Some lo
         else if ok_hi then Some hi
         else None)"

fun sci_digits :: "rat \<Rightarrow> nat \<Rightarrow> nat \<Rightarrow> nat \<Rightarrow> int" where
  "sci_digits x N k 0 = \<lfloor>x / 10 ^ (N - k)\<rfloor>"
| "sci_digits x N k (Suc fuel) =
     (case sci_try x N k of Some s \<Rightarrow> s | None \<Rightarrow> sci_digits x N (Suc k) fuel)"

definition exponent_text :: "rat \<Rightarrow> string" where
  "exponent_text x =
     (let N = length (dec \<lfloor>x\<rfloor>)
      in if dbl (10 ^ N) = Fin x then ''1e+'' @ dec (int N)
         else let ds = dec (sci_digits x N 1 17)
              in (if length ds = 1 then ds else hd ds # CHR ''.'' # tl ds)
                 @ ''e+'' @ dec (int N - 1))"

text \<open>
  \<^verbatim>\<open>x.toFixed(1)\<close>: the sign, then the integer \<open>n\<close> nearest to ten times the magnitude
  (the larger one at a tie) printed with one digit after the point; the text of the
  Number itself when it is not finite or its magnitude is \<open>10 ^ 21\<close> or more.
\<close>

definition fixed1_text :: "int \<Rightarrow> string" where
  "fixed1_text n = dec (n div 10) @ ''.'' @ dec (n mod 10)"

definition toFixed1 :: "jsnum \<Rightarrow> string" where
  "toFixed1 a =
     (case a of
        NaN \<Rightarrow> ''NaN''
      | PosInf \<Rightarrow> ''Infinity''
      | NegInf \<Rightarrow> ''-Infinity''
      | Fin x \<Rightarrow>
          (if x < 0 then ''-'' else []) @
          (if 10 ^ 21 \<le> \<bar>x\<bar> then exponent_text \<bar>x\<bar>
           else fixed1_text \<lfloor>10 * \<bar>x\<bar> + 1 / 2\<rfloor>))"

subsection \<open>Text arguments, method calls and property lookup\<close>

text \<open>
  A text argument (material type, quality grade, location, urgency) arrives from a JSON
  request body or a stored document, so it may be any JSON value. \<open>Object\<close> stands for a
  JSON object or array; none of them has a property \<^verbatim>\<open>toLowerCase\<close>.
\<close>

datatype jsval = Undefined | Null | Bool bool | Num jsnum | Str string | Object

datatype error = TypeError | StoreError

text \<open>
  \<^verbatim>\<open>v?.toLowerCase()\<close>: the optional chain yields \<^verbatim>\<open>undefined\<close> (here \<open>None\<close>) for
  \<^verbatim>\<open>undefined\<close> and \<^verbatim>\<open>null\<close>; on a String it calls the method; on any other value the
  property \<^verbatim>\<open>toLowerCase\<close> is \<^verbatim>\<open>undefined\<close> and calling it throws a TypeError.
  (\<open>StoreError\<close> is a failure of the document store, used further below.)
\<close>

definition opt_toLowerCase :: "jsval \<Rightarrow> error + string option" where
  "opt_toLowerCase v =
     (case v of
        Undefined \<Rightarrow> Inr None
      | Null \<Rightarrow> Inr None
      | Str s \<Rightarrow> Inr (Some (toLowerCase s))
      | _ \<Rightarrow> Inl TypeError)"

text \<open>
  \<^verbatim>\<open>v?.toLowerCase().replace(' ', '_')\<close>: the whole chain is skipped for \<^verbatim>\<open>undefined\<close>
  and \<^verbatim>\<open>null\<close>.
\<close>

definition opt_toLowerCase_replace :: "jsval \<Rightarrow> error + string option" where
  "opt_toLowerCase_replace v =
     (case opt_toLowerCase v of
        Inl e \<Rightarrow> Inl e
      | Inr None \<Rightarrow> Inr None
      | Inr (Some s) \<Rightarrow> Inr (Some (replace_space s)))"

text \<open>The truth value of a text argument in a condition.\<close>

definition truthy :: "jsval \<Rightarrow> bool" where
  "truthy v =
     (case v of
        Undefined \<Rightarrow> False
      | Null \<Rightarrow> False
      | Bool b \<Rightarrow> b
      | Num a \<Rightarrow> \<not> is_NaN a \<and> \<not> is_zero a
      | Str s \<Rightarrow> s \<noteq> []
      | Object \<Rightarrow> True)"

text \<open>A property key: \<^verbatim>\<open>table[undefined]\<close> reads the property named \<^verbatim>\<open>undefined\<close>.\<close>

definition property_key :: "string option \<Rightarrow> string" where
  "property_key k = (case k of None \<Rightarrow> ''undefined'' | Some s \<Rightarrow> s)"

text \<open>
  The lookup tables of the source are object literals, so \<^verbatim>\<open>table[key]\<close> finds the
  table's own entries and, for the other keys, the properties that every object inherits
  from \<^verbatim>\<open>Object.prototype\<close>: its methods, its \<^verbatim>\<open>constructor\<close> (the function
  \<^verbatim>\<open>Object\<close>) and \<^verbatim>\<open>__proto__\<close> (the prototype object itself).
\<close>

definition Object_prototype_keys :: "string list" where
  "Object_prototype_keys =
     [''constructor'', ''__defineGetter__'', ''__defineSetter__'', ''hasOwnProperty'',
      ''__lookupGetter__'', ''__lookupSetter__'', ''isPrototypeOf'',
      ''propertyIsEnumerable'', ''toString'', ''valueOf'', ''__proto__'',
      ''toLocaleString'']"

datatype 'a looked = Own 'a | Inherited string | Absent

definition get_prop :: "(string \<times> 'a) list \<Rightarrow> string \<Rightarrow> 'a looked" where
  "get_prop table k =
     (case map_of table k of
        Some v \<Rightarrow> Own v
      | None \<Rightarrow> if k \<in> set Object_prototype_keys then Inherited k else Absent)"

text \<open>
  \<^verbatim>\<open>table[key] || d\<close>. Every entry of the tables below is truthy (a non-zero Number or
  an object), and so is every inherited property (a function or an object); only a
  missing property gives way to the default.
\<close>

definition or_default :: "'a looked \<Rightarrow> 'a \<Rightarrow> 'a looked" where
  "or_default v d = (case v of Absent \<Rightarrow> Own d | _ \<Rightarrow> v)"

text \<open>
  \<^verbatim>\<open>r.field\<close> of the result of such a lookup: a table record has the field; the inherited
  functions and the prototype object do not (\<^verbatim>\<open>undefined\<close>, here \<open>None\<close>).
\<close>

definition field :: "('r \<Rightarrow> 'a) \<Rightarrow> 'r looked \<Rightarrow> 'a option" where
  "field f v = (case v of Own r \<Rightarrow> Some (f r) | _ \<Rightarrow> None)"

text \<open>
  The text of an inherited property when it is concatenated to a string: a built-in
  function prints as its source text, the prototype object as \<^verbatim>\<open>[object Object]\<close>.
\<close>

definition inherited_text :: "string \<Rightarrow> string" where
  "inherited_text k =
     (if k = ''__proto__'' then ''[object Object]''
      else ''function '' @ (if k = ''constructor'' then ''Object'' else k)
           @ ''() { [native code] }'')"

text \<open>
  \<^verbatim>\<open>ToNumber\<close> of a String, needed where \<^verbatim>\<open>Math.min\<close> receives a \<^verbatim>\<open>score\<close> that has
  become a String. Such a text is a run of digits followed by the text of an inherited
  property. Only unsigned decimal integers are decoded here; any other text, in
  particular any text with a letter or a bracket in it, is not a numeric literal (NaN).
\<close>

definition StringToNumber :: "string \<Rightarrow> jsnum" where
  "StringToNumber s =
     (if s \<noteq> [] \<and> list_all is_digit s then dbl (of_int (dec_value s)) else NaN)"

text \<open>The number that an inherited property converts to in a product.\<close>

definition number_of :: "jsnum looked \<Rightarrow> jsnum" where
  "number_of v =
     (case v of
        Own a \<Rightarrow> a
      | Inherited k \<Rightarrow> StringToNumber (inherited_text k)
      | Absent \<Rightarrow> NaN)"

section \<open>The scoring functions\<close>

text \<open>
  Each function returns \<open>Inr\<close> of its result, or \<open>Inl\<close> of the exception it throws.
  Integer literals of the source are exact Numbers (\<open>Fin\<close>); decimal literals are
  rounded (\<open>lit\<close>).
\<close>

definition bind :: "error + 'a \<Rightarrow> ('a \<Rightarrow> error + 'b) \<Rightarrow> error + 'b" where
  "bind r f = (case r of Inl e \<Rightarrow> Inl e | Inr v \<Rightarrow> f v)"

subsection \<open>\<^verbatim>\<open>calculateAdvancedCompatibility\<close>\<close>

text \<open>
  A requirement is a stored document. Its field \<^verbatim>\<open>materials_needed\<close> is meant to be an
  array of material names, but the store holds whatever was written: the field may be
  missing or \<^verbatim>\<open>null\<close>, an array of any values, a String, or a value of another kind
  (a Number, a Boolean, a map, a timestamp), which has no method \<^verbatim>\<open>includes\<close>.
\<close>

datatype materials = NoMaterials | MaterialArray "jsval list" | MaterialText string | MaterialOther

record requirement =
  materials_needed :: materials
  capacity :: "jsnum option"
  urgency :: jsval
  price_offered :: "jsnum option"

text \<open>
  The variable \<^verbatim>\<open>score\<close> holds a small integer Number as long as Numbers are added to it.
  Adding a function or an object turns it into a String (\<^verbatim>\<open>+\<close> concatenates), and it
  stays one.
\<close>

datatype score = IntScore int | TextScore string

definition score_text :: "score \<Rightarrow> string" where
  "score_text sc = (case sc of IntScore n \<Rightarrow> dec n | TextScore s \<Rightarrow> s)"

text \<open>\<^verbatim>\<open>score += k\<close>\<close>

definition plus_int :: "score \<Rightarrow> int \<Rightarrow> score" where
  "plus_int sc k = (case sc of IntScore n \<Rightarrow> IntScore (n + k) | TextScore s \<Rightarrow> TextScore (s @ dec k))"

text \<open>\<^verbatim>\<open>score += table[key] || d\<close>\<close>

definition plus_or_default :: "score \<Rightarrow> int looked \<Rightarrow> int \<Rightarrow> score" where
  "plus_or_default sc v d =
     (case v of
        Own k \<Rightarrow> plus_int sc k
      | Inherited key \<Rightarrow> TextScore (score_text sc @ inherited_text key)
      | Absent \<Rightarrow> plus_int sc d)"

definition score_number :: "score \<Rightarrow> jsnum" where
  "score_number sc = (case sc of IntScore n \<Rightarrow> Fin (of_int n) | TextScore s \<Rightarrow> StringToNumber s)"

definition qualityScores :: "(string \<times> int) list" where
  "qualityScores = [(''premium'', 15), (''grade_a'', 12), (''grade_1'', 12), (''standard'', 8)]"

text \<open>The argument that \<^verbatim>\<open>includes\<close> receives: the lower-cased text, or \<^verbatim>\<open>undefined\<close>.\<close>

definition search_element :: "string option \<Rightarrow> jsval" where
  "search_element k = (case k of None \<Rightarrow> Undefined | Some s \<Rightarrow> Str s)"

text \<open>The same argument converted to a String, as \<^verbatim>\<open>String.prototype.includes\<close> does.\<close>

definition search_string :: "string option \<Rightarrow> string" where
  "search_string k = (case k of None \<Rightarrow> ''undefined'' | Some s \<Rightarrow> s)"

text \<open>
  \<^verbatim>\<open>requirement.materials_needed?.includes(wasteType?.toLowerCase())\<close>: without a
  materials list the call, and with it the evaluation of its argument, is skipped.
  Otherwise the argument is evaluated, which throws for a material type that is neither a
  String nor absent. An array is searched for an element equal to the argument, a String
  for an occurrence of the argument's text; on any other value \<^verbatim>\<open>includes\<close> is
  \<^verbatim>\<open>undefined\<close> and the call throws a TypeError.
\<close>

definition materials_include :: "requirement \<Rightarrow> jsval \<Rightarrow> error + bool" where
  "materials_include requirement wasteType =
     (case materials_needed requirement of
        NoMaterials \<Rightarrow> Inr False
      | MaterialArray ms \<Rightarrow>
          bind (opt_toLowerCase wasteType) (\<lambda>k. Inr (search_element k \<in> set ms))
      | MaterialText t \<Rightarrow>
          bind (opt_toLowerCase wasteType) (\<lambda>k. Inr (String_includes t (search_string k)))
      | MaterialOther \<Rightarrow> Inl TypeError)"

definition calculateAdvancedCompatibility ::
  "jsval \<Rightarrow> jsnum option \<Rightarrow> jsval \<Rightarrow> requirement \<Rightarrow> error + jsnum" where
  "calculateAdvancedCompatibility wasteType quantity qualityGrade requirement =
     bind (materials_include requirement wasteType) (\<lambda>included.
       let score = IntScore 50;
           score = (if included then plus_int score 25 else score);
           score = (if ge (ToNumber (capacity requirement)) (ToNumber quantity)
                    then plus_int score 15
                    else if ge (ToNumber (capacity requirement))
                               (mul (ToNumber quantity) (lit 0.7))
                    then plus_int score 10
                    else score)
       in bind (opt_toLowerCase qualityGrade) (\<lambda>grade.
            let score = plus_or_default score (get_prop qualityScores (property_key grade)) 5;
                score = (if urgency requirement = Str ''high'' then plus_int score 8 else score)
            in Inr (Math_min (score_number score) (Fin 98))))"

subsection \<open>\<^verbatim>\<open>calculateCO2Impact\<close>\<close>

record coefficient_entry =
  co2_per_ton :: jsnum
  description :: string

definition coefficients :: "(string \<times> coefficient_entry) list" where
  "coefficients =
     [(''fly_ash'', \<lparr>co2_per_ton = lit 0.8, description = ''Replaces cement production''\<rparr>),
      (''steel_slag'', \<lparr>co2_per_ton = lit 0.7, description = ''Reduces limestone mining''\<rparr>),
      (''silica_fume'', \<lparr>co2_per_ton = lit 1.2, description = ''High-efficiency replacement''\<rparr>),
      (''bottom_ash'', \<lparr>co2_per_ton = lit 0.6, description = ''Reduces aggregate extraction''\<rparr>)]"

record co2_impact =
  co2_saved :: string
  trees_equivalent :: jsnum
  carbon_credits :: jsnum
  process_description :: "string option"
  cement_offset :: string
  water_saved :: string
  energy_offset :: string
  air_quality_improvement :: string

definition calculateCO2Impact :: "jsval \<Rightarrow> jsnum option \<Rightarrow> error + co2_impact" where
  "calculateCO2Impact wasteType quantity =
     bind (opt_toLowerCase_replace wasteType) (\<lambda>key.
       let coefficient =
             or_default (get_prop coefficients (property_key key))
               \<lparr>co2_per_ton = lit 0.5, description = ''General waste material''\<rparr>;
           co2Saved = mul (ToNumber quantity) (ToNumber (field co2_per_ton coefficient));
           treesEquivalent = Math_round (mul co2Saved (lit 1.2));
           carbonCredits = mul co2Saved (Fin 1200)
       in Inr \<lparr>co2_saved = toFixed1 co2Saved,
               trees_equivalent = treesEquivalent,
               carbon_credits = Math_round carbonCredits,
               process_description = field description coefficient,
               cement_offset = toFixed1 (mul (ToNumber quantity) (lit 0.85)),
               water_saved = toFixed1 (mul (ToNumber quantity) (lit 2.5)),
               energy_offset = toFixed1 (mul co2Saved (lit 2.1)),
               air_quality_improvement = toFixed1 (mul (ToNumber quantity) (lit 0.3))\<rparr>)"

subsection \<open>\<^verbatim>\<open>calculateDynamicRevenue\<close>\<close>

definition qualityMultipliers :: "(string \<times> jsnum) list" where
  "qualityMultipliers =
     [(''premium'', lit 1.15), (''grade_a'', lit 1.08), (''grade_1'', lit 1.08),
      (''standard'', lit 1.0), (''below_standard'', lit 0.85)]"

text \<open>\<^verbatim>\<open>qualityGrade.toLowerCase()\<close>, reached only for a truthy grade.\<close>

definition call_toLowerCase :: "jsval \<Rightarrow> error + string" where
  "call_toLowerCase v = (case v of Str s \<Rightarrow> Inr (toLowerCase s) | _ \<Rightarrow> Inl TypeError)"

definition calculateDynamicRevenue ::
  "jsnum option \<Rightarrow> jsnum option \<Rightarrow> jsval \<Rightarrow> error + jsnum" where
  "calculateDynamicRevenue quantity pricePerTon qualityGrade =
     (if \<not> truthy_num quantity \<or> \<not> truthy_num pricePerTon then Inr (Fin 0)
      else
        let baseRevenue = mul (ToNumber quantity) (ToNumber pricePerTon)
        in bind (if truthy qualityGrade
                 then bind (call_toLowerCase qualityGrade) (\<lambda>grade.
                        Inr (mul baseRevenue
                               (number_of (or_default (get_prop qualityMultipliers grade)
                                             (lit 1.0)))))
                 else Inr baseRevenue) (\<lambda>baseRevenue.
             let baseRevenue =
                   (if ge (ToNumber quantity) (Fin 1000) then mul baseRevenue (lit 1.12)
                    else if ge (ToNumber quantity) (Fin 500) then mul baseRevenue (lit 1.08)
                    else baseRevenue)
             in Inr (Math_round baseRevenue)))"

subsection \<open>\<^verbatim>\<open>calculateDynamicPricing\<close>\<close>

record price_entry =
  base :: jsnum
  trend :: jsnum
  volatility :: jsnum

definition basePrices :: "(string \<times> price_entry) list" where
  "basePrices =
     [(''fly_ash'', \<lparr>base = Fin 2800, trend = lit 1.05, volatility = lit 0.12\<rparr>),
      (''steel_slag'', \<lparr>base = Fin 2200, trend = lit 1.08, volatility = lit 0.15\<rparr>),
      (''silica_fume'', \<lparr>base = Fin 4500, trend = lit 1.12, volatility = lit 0.08\<rparr>),
      (''bottom_ash'', \<lparr>base = Fin 1800, trend = lit 1.03, volatility = lit 0.10\<rparr>)]"

record price_analysis =
  base_price :: jsnum
  quality_multiplier :: "jsnum looked"
  volume_tier :: string
  volume_adjustment :: string
  location_premium :: string
  final_price :: jsnum
  total_value :: "jsnum option"
  quality_bonus :: jsnum
  bulk_premium :: jsnum
  express_premium :: jsnum
  carbon_credit_bonus :: jsnum

text \<open>
  The function is \<^verbatim>\<open>async\<close>: an exception thrown in its body rejects the promise it
  returns, and the caller's \<^verbatim>\<open>await\<close> rethrows it. \<open>total_value = None\<close> is \<^verbatim>\<open>null\<close>.
\<close>

definition calculateDynamicPricing ::
  "jsval \<Rightarrow> jsval \<Rightarrow> jsnum option \<Rightarrow> jsval \<Rightarrow> error + price_analysis" where
  "calculateDynamicPricing wasteType location quantity qualityGrade =
     bind (opt_toLowerCase_replace wasteType) (\<lambda>key.
       let priceData =
             or_default (get_prop basePrices (property_key key))
               \<lparr>base = Fin 2500, trend = lit 1.0, volatility = lit 0.10\<rparr>;
           finalPrice = mul (ToNumber (field base priceData)) (ToNumber (field trend priceData))
       in bind (opt_toLowerCase qualityGrade) (\<lambda>grade.
            let qualityMultiplier =
                  or_default (get_prop qualityMultipliers (property_key grade)) (lit 1.0);
                finalPrice = mul finalPrice (number_of qualityMultiplier);
                (finalPrice, volumeAdjustment) =
                  (if ge (ToNumber quantity) (Fin 1000)
                   then (mul finalPrice (lit 1.12), ''Bulk Premium (+12%)'')
                   else if ge (ToNumber quantity) (Fin 500)
                   then (mul finalPrice (lit 1.08), ''Volume Premium (+8%)'')
                   else if less (ToNumber quantity) (Fin 100)
                   then (mul finalPrice (lit 0.95), ''Small Batch (-5%)'')
                   else (finalPrice, ''Standard Rate''))
            in Inr \<lparr>base_price = Math_round (ToNumber (field base priceData)),
                    quality_multiplier = qualityMultiplier,
                    volume_tier =
                      (if ge (ToNumber quantity) (Fin 1000) then ''Bulk''
                       else if ge (ToNumber quantity) (Fin 500) then ''Volume''
                       else ''Standard''),
                    volume_adjustment = volumeAdjustment,
                    location_premium = ''0% (Base location)'',
                    final_price = Math_round finalPrice,
                    total_value =
                      (if truthy_num quantity
                       then Some (Math_round (mul finalPrice (ToNumber quantity)))
                       else None),
                    quality_bonus =
                      Math_round (mul (sub (number_of qualityMultiplier) (Fin 1))
                                      (ToNumber (field base priceData))),
                    bulk_premium =
                      (if ge (ToNumber quantity) (Fin 500)
                       then (if ge (ToNumber quantity) (Fin 1000) then Fin 12 else Fin 8)
                       else Fin 0),
                    express_premium = Fin 150,
                    carbon_credit_bonus = Fin 15\<rparr>))"

subsection \<open>\<^verbatim>\<open>calculateOptimalDistance\<close> and \<^verbatim>\<open>estimateLogisticsCost\<close>\<close>

record coordinates =
  lat :: jsnum
  lng :: jsnum

definition cityCoordinates :: "(string \<times> coordinates) list" where
  "cityCoordinates =
     [(''mumbai'', \<lparr>lat = lit 19.0760, lng = lit 72.8777\<rparr>),
      (''chennai'', \<lparr>lat = lit 13.0827, lng = lit 80.2707\<rparr>),
      (''bangalore'', \<lparr>lat = lit 12.9716, lng = lit 77.5946\<rparr>),
      (''pune'', \<lparr>lat = lit 18.5204, lng = lit 73.8567\<rparr>),
      (''delhi'', \<lparr>lat = lit 28.7041, lng = lit 77.1025\<rparr>),
      (''kolkata'', \<lparr>lat = lit 22.5726, lng = lit 88.3639\<rparr>)]"

text \<open>
  The transcendental functions of \<^verbatim>\<open>Math\<close> are provided by the host, with results the
  language leaves to the implementation; they are parameters of the model. They map
  Numbers to Numbers and never throw. \<^verbatim>\<open>Math.PI\<close> is the binary64 value nearest to \<open>\<pi>\<close>.
\<close>

record math =
  Math_sin :: "jsnum \<Rightarrow> jsnum"
  Math_cos :: "jsnum \<Rightarrow> jsnum"
  Math_sqrt :: "jsnum \<Rightarrow> jsnum"
  Math_atan2 :: "jsnum \<Rightarrow> jsnum \<Rightarrow> jsnum"

definition Math_PI :: jsnum where
  "Math_PI = Fin (884279719003555 / 281474976710656)"

definition calculateOptimalDistance :: "math \<Rightarrow> jsval \<Rightarrow> jsval \<Rightarrow> error + jsnum" where
  "calculateOptimalDistance m location1 location2 =
     bind (opt_toLowerCase location1) (\<lambda>key1.
       let city1 = or_default (get_prop cityCoordinates (property_key key1))
                     \<lparr>lat = lit 19.0760, lng = lit 72.8777\<rparr>
       in bind (opt_toLowerCase location2) (\<lambda>key2.
            let city2 = or_default (get_prop cityCoordinates (property_key key2))
                          \<lparr>lat = lit 18.5204, lng = lit 73.8567\<rparr>;
                lat1 = ToNumber (field lat city1);
                lng1 = ToNumber (field lng city1);
                lat2 = ToNumber (field lat city2);
                lng2 = ToNumber (field lng city2);
                R = Fin 6371;
                dLat = divide (mul (sub lat2 lat1) Math_PI) (Fin 180);
                dLng = divide (mul (sub lng2 lng1) Math_PI) (Fin 180);
                a = add (mul (Math_sin m (divide dLat (Fin 2))) (Math_sin m (divide dLat (Fin 2))))
                        (mul (mul (mul (Math_cos m (divide (mul lat1 Math_PI) (Fin 180)))
                                       (Math_cos m (divide (mul lat2 Math_PI) (Fin 180))))
                                  (Math_sin m (divide dLng (Fin 2))))
                             (Math_sin m (divide dLng (Fin 2))));
                c = mul (Fin 2) (Math_atan2 m (Math_sqrt m a) (Math_sqrt m (sub (Fin 1) a)))
            in Inr (Math_round (mul R c))))"

definition estimateLogisticsCost :: "jsnum \<Rightarrow> jsnum option \<Rightarrow> error + jsnum" where
  "estimateLogisticsCost distance quantity =
     (let baseCostPerKm = Fin 45;
          baseCost = mul distance baseCostPerKm;
          volumeDiscount =
            (if ge (ToNumber quantity) (Fin 500) then lit 0.8
             else if ge (ToNumber quantity) (Fin 200) then lit 0.9
             else lit 1.0)
      in Inr (Math_round (mul baseCost volumeDiscount)))"

section \<open>The \<^verbatim>\<open>createMatch\<close> handler\<close>

text \<open>
  The handler reads one listing and one requirement from the document store, scores the
  pair and adds a match document. The store is a collaborator outside the source: its two
  reads (a document, no document, or a failure) and the success of its writes are
  parameters. The system clock is read twice while the match document is built, by
  \<^verbatim>\<open>new Date()\<close> and then by \<^verbatim>\<open>Date.now()\<close>; \<open>clock i\<close> is the \<open>i\<close>-th reading, in
  milliseconds since the epoch.
\<close>

record waste_listing =
  listing_type :: jsval
  listing_quantity :: "jsnum option"
  quality_grade :: jsval

record request_body =
  wasteId :: jsval
  requirementId :: jsval
  userInfo :: jsval
  contactPreference :: jsval

record store =
  get_waste_listing :: "jsval \<Rightarrow> error + waste_listing option"
  get_cement_requirement :: "jsval \<Rightarrow> error + requirement option"
  add_match_succeeds :: bool
  follow_up_succeeds :: bool

record match_record =
  waste_id :: jsval
  requirement_id :: jsval
  waste_data :: waste_listing
  requirement_data :: requirement
  match_score :: jsnum
  status :: string
  user_info :: jsval
  contact_preference :: jsval
  created_at :: int
  expires_at :: int
  estimated_co2_savings :: string
  estimated_revenue :: jsnum

record outcome =
  http_status :: nat
  written :: "match_record option"

definition matchData ::
  "(nat \<Rightarrow> int) \<Rightarrow> request_body \<Rightarrow> waste_listing \<Rightarrow> requirement \<Rightarrow> error + match_record" where
  "matchData clock body wasteData requirementData =
     bind (calculateAdvancedCompatibility (listing_type wasteData) (listing_quantity wasteData)
             (quality_grade wasteData) requirementData) (\<lambda>matchScore.
     bind (calculateCO2Impact (listing_type wasteData) (listing_quantity wasteData)) (\<lambda>impact.
     bind (calculateDynamicRevenue (listing_quantity wasteData) (price_offered requirementData)
             Undefined) (\<lambda>revenue.
       Inr \<lparr>waste_id = wasteId body,
            requirement_id = requirementId body,
            waste_data = wasteData,
            requirement_data = requirementData,
            match_score = matchScore,
            status = ''pending_contact'',
            user_info = (if truthy (userInfo body) then userInfo body else Object),
            contact_preference =
              (if truthy (contactPreference body) then contactPreference body else Str ''email''),
            created_at = clock 0,
            expires_at = clock 1 + 7 * 24 * 60 * 60 * 1000,
            estimated_co2_savings = co2_saved impact,
            estimated_revenue = revenue\<rparr>)))"

definition createMatch :: "store \<Rightarrow> (nat \<Rightarrow> int) \<Rightarrow> request_body \<Rightarrow> outcome" where
  "createMatch db clock body =
     (if \<not> truthy (wasteId body) \<or> \<not> truthy (requirementId body)
      then \<lparr>http_status = 400, written = None\<rparr>
      else
        case bind (get_waste_listing db (wasteId body)) (\<lambda>wasteDoc.
             bind (get_cement_requirement db (requirementId body)) (\<lambda>requirementDoc.
               Inr (wasteDoc, requirementDoc))) of
          Inl e \<Rightarrow> \<lparr>http_status = 500, written = None\<rparr>
        | Inr (None, requirementDoc) \<Rightarrow> \<lparr>http_status = 404, written = None\<rparr>
        | Inr (Some wasteData, None) \<Rightarrow> \<lparr>http_status = 404, written = None\<rparr>
        | Inr (Some wasteData, Some requirementData) \<Rightarrow>
            (case matchData clock body wasteData requirementData of
               Inl e \<Rightarrow> \<lparr>http_status = 500, written = None\<rparr>
             | Inr m \<Rightarrow>
                 if \<not> add_match_succeeds db then \<lparr>http_status = 500, written = None\<rparr>
                 else \<lparr>http_status = (if follow_up_succeeds db then 200 else 500),
                       written = Some m\<rparr>))"

section \<open>Vocabulary of the claims\<close>

text \<open>
  A text argument is well-formed when it is a String or absent (\<^verbatim>\<open>undefined\<close> or
  \<^verbatim>\<open>null\<close>). \<open>lowered_key v\<close> is the property name that a table is then read at:
  the lower-cased text, or \<^verbatim>\<open>undefined\<close>. \<open>material_key\<close> is the same with the first
  blank replaced by an underscore, as the CO2 and pricing tables are read.
\<close>

definition text_or_absent :: "jsval \<Rightarrow> bool" where
  "text_or_absent v = (case v of Undefined \<Rightarrow> True | Null \<Rightarrow> True | Str s \<Rightarrow> True | _ \<Rightarrow> False)"

definition lowered_key :: "jsval \<Rightarrow> string" where
  "lowered_key v = (case v of Str s \<Rightarrow> toLowerCase s | _ \<Rightarrow> ''undefined'')"

definition material_key :: "jsval \<Rightarrow> string" where
  "material_key v = (case v of Str s \<Rightarrow> replace_space (toLowerCase s) | _ \<Rightarrow> ''undefined'')"

text \<open>A key that names a property inherited from \<^verbatim>\<open>Object.prototype\<close>.\<close>

definition inherited_key :: "string \<Rightarrow> bool" where
  "inherited_key k = (k \<in> set Object_prototype_keys)"

text \<open>
  The compatibility score as the specification words it: base 50, 25 when the materials
  list has the material type, 15 or 10 by capacity, the quality bonus of a fixed table
  (5 for an unknown grade), 8 for high urgency, and the ceiling 98.
\<close>

definition capacity_bonus :: "requirement \<Rightarrow> jsnum option \<Rightarrow> int" where
  "capacity_bonus requirement quantity =
     (if ge (ToNumber (capacity requirement)) (ToNumber quantity) then 15
      else if ge (ToNumber (capacity requirement)) (mul (ToNumber quantity) (lit 0.7)) then 10
      else 0)"

definition quality_bonus :: "string \<Rightarrow> int" where
  "quality_bonus grade =
     (if grade = ''premium'' then 15
      else if grade = ''grade_a'' \<or> grade = ''grade_1'' then 12
      else if grade = ''standard'' then 8
      else 5)"

definition urgency_bonus :: "requirement \<Rightarrow> int" where
  "urgency_bonus requirement = (if urgency requirement = Str ''high'' then 8 else 0)"

definition other_bonuses :: "requirement \<Rightarrow> jsnum option \<Rightarrow> jsval \<Rightarrow> int" where
  "other_bonuses requirement quantity qualityGrade =
     capacity_bonus requirement quantity + quality_bonus (lowered_key qualityGrade)
     + urgency_bonus requirement"

text \<open>
  \<open>listed\<close>: the materials list contains the material type. An array contains it when
  one of its entries is the lower-cased material type (\<^verbatim>\<open>undefined\<close> for an absent
  type), the entries being compared as they are stored; a String contains it when the
  lower-cased material type occurs in it. \<open>materials_throw\<close>: the search itself fails,
  because the stored value cannot be searched or the material type cannot be lower-cased.
\<close>

definition lowered_element :: "jsval \<Rightarrow> jsval" where
  "lowered_element v = (case v of Str s \<Rightarrow> Str (toLowerCase s) | _ \<Rightarrow> Undefined)"

definition listed :: "requirement \<Rightarrow> jsval \<Rightarrow> bool" where
  "listed requirement wasteType =
     (case materials_needed requirement of
        NoMaterials \<Rightarrow> False
      | MaterialArray ms \<Rightarrow> lowered_element wasteType \<in> set ms
      | MaterialText t \<Rightarrow> String_includes t (lowered_key wasteType)
      | MaterialOther \<Rightarrow> False)"

definition materials_throw :: "requirement \<Rightarrow> jsval \<Rightarrow> bool" where
  "materials_throw requirement wasteType =
     (case materials_needed requirement of
        NoMaterials \<Rightarrow> False
      | MaterialArray ms \<Rightarrow> \<not> text_or_absent wasteType
      | MaterialText t \<Rightarrow> \<not> text_or_absent wasteType
      | MaterialOther \<Rightarrow> True)"

text \<open>
  A store with one listing and one requirement, and a request naming them: the concrete
  input at which the statements about \<^verbatim>\<open>createMatch\<close> are evaluated.
\<close>

definition example_listing :: waste_listing where
  "example_listing = \<lparr>listing_type = Str ''fly_ash'', listing_quantity = Some (Fin 500),
     quality_grade = Str ''premium''\<rparr>"

definition example_requirement :: requirement where
  "example_requirement = \<lparr>materials_needed = MaterialArray [Str ''fly_ash''],
     capacity = Some (Fin 600), urgency = Str ''high'', price_offered = Some (Fin 3000)\<rparr>"

definition example_store :: store where
  "example_store =
     \<lparr>get_waste_listing = (\<lambda>id. Inr (Some example_listing)),
      get_cement_requirement = (\<lambda>id. Inr (Some example_requirement)),
      add_match_succeeds = True, follow_up_succeeds = True\<rparr>"

definition example_body :: request_body where
  "example_body = \<lparr>wasteId = Str ''w1'', requirementId = Str ''r1'', userInfo = Undefined,
     contactPreference = Undefined\<rparr>"

text \<open>
  The CO2 coefficient table as the specification lists it (per-ton coefficient and
  mechanism, 0.5 for an unknown material), and the impact bundle with the rounding that
  the code applies: the five decimal fields are texts with one digit after the point.
\<close>

definition spec_co2_coefficient :: "string \<Rightarrow> rat \<times> string" where
  "spec_co2_coefficient key =
     (if key = ''fly_ash'' then (0.8, ''Replaces cement production'')
      else if key = ''steel_slag'' then (0.7, ''Reduces limestone mining'')
      else if key = ''silica_fume'' then (1.2, ''High-efficiency replacement'')
      else if key = ''bottom_ash'' then (0.6, ''Reduces aggregate extraction'')
      else (0.5, ''General waste material''))"

definition co2Impact_rounded :: "rat \<times> string \<Rightarrow> jsnum \<Rightarrow> co2_impact" where
  "co2Impact_rounded coefficient quantity =
     (let co2Saved = mul quantity (lit (fst coefficient))
      in \<lparr>co2_saved = toFixed1 co2Saved,
          trees_equivalent = Math_round (mul co2Saved (lit 1.2)),
          carbon_credits = Math_round (mul co2Saved (Fin 1200)),
          process_description = Some (snd coefficient),
          cement_offset = toFixed1 (mul quantity (lit 0.85)),
          water_saved = toFixed1 (mul quantity (lit 2.5)),
          energy_offset = toFixed1 (mul co2Saved (lit 2.1)),
          air_quality_improvement = toFixed1 (mul quantity (lit 0.3))\<rparr>)"

text \<open>
  The price formula as the specification states it, in exact arithmetic: base price and
  trend by material (2500 and 1.0 for an unknown one), quality multiplier by grade (1.0
  for an unknown one), and the volume tier, looked for from the highest threshold down.
\<close>

definition spec_price :: "string \<Rightarrow> rat \<times> rat" where
  "spec_price key =
     (if key = ''fly_ash'' then (2800, 1.05)
      else if key = ''steel_slag'' then (2200, 1.08)
      else if key = ''silica_fume'' then (4500, 1.12)
      else if key = ''bottom_ash'' then (1800, 1.03)
      else (2500, 1.0))"

definition spec_quality_multiplier :: "string \<Rightarrow> rat" where
  "spec_quality_multiplier grade =
     (if grade = ''premium'' then 1.15
      else if grade = ''grade_a'' \<or> grade = ''grade_1'' then 1.08
      else if grade = ''standard'' then 1.0
      else if grade = ''below_standard'' then 0.85
      else 1.0)"

datatype volume_tier = Bulk | Volume | Small | Standard

definition spec_volume_tier :: "jsnum option \<Rightarrow> volume_tier" where
  "spec_volume_tier quantity =
     (if ge (ToNumber quantity) (Fin 1000) then Bulk
      else if ge (ToNumber quantity) (Fin 500) then Volume
      else if less (ToNumber quantity) (Fin 100) then Small
      else Standard)"

definition spec_volume_multiplier :: "volume_tier \<Rightarrow> rat" where
  "spec_volume_multiplier tier =
     (case tier of Bulk \<Rightarrow> 1.12 | Volume \<Rightarrow> 1.08 | Small \<Rightarrow> 0.95 | Standard \<Rightarrow> 1.0)"

definition spec_volume_label :: "volume_tier \<Rightarrow> string" where
  "spec_volume_label tier =
     (case tier of
        Bulk \<Rightarrow> ''Bulk Premium (+12%)''
      | Volume \<Rightarrow> ''Volume Premium (+8%)''
      | Small \<Rightarrow> ''Small Batch (-5%)''
      | Standard \<Rightarrow> ''Standard Rate'')"

definition spec_finalPrice :: "string \<Rightarrow> string \<Rightarrow> jsnum option \<Rightarrow> rat" where
  "spec_finalPrice material grade quantity =
     fst (spec_price material) * snd (spec_price material) * spec_quality_multiplier grade
     * spec_volume_multiplier (spec_volume_tier quantity)"

text \<open>
  The rows of the two tables, and what it means for the binary64 computation of a row to
  agree with the exact product rounded to the nearest integer, in each volume tier.
\<close>

definition price_rows :: "(rat \<times> rat) list" where
  "price_rows = [(2800, 1.05), (2200, 1.08), (4500, 1.12), (1800, 1.03), (2500, 1.0)]"

definition quality_multipliers :: "rat list" where
  "quality_multipliers = [1.15, 1.08, 1.0, 0.85]"

definition price_ok :: "rat \<times> rat \<Rightarrow> rat \<Rightarrow> bool" where
  "price_ok row q =
     (Math_round (mul (mul (Fin (fst row)) (lit (snd row))) (lit q)) =
        Fin (of_int \<lfloor>fst row * snd row * q + 1 / 2\<rfloor>)
      \<and> Math_round (mul (mul (mul (Fin (fst row)) (lit (snd row))) (lit q)) (lit 1.12)) =
        Fin (of_int \<lfloor>fst row * snd row * q * 1.12 + 1 / 2\<rfloor>)
      \<and> Math_round (mul (mul (mul (Fin (fst row)) (lit (snd row))) (lit q)) (lit 1.08)) =
        Fin (of_int \<lfloor>fst row * snd row * q * 1.08 + 1 / 2\<rfloor>)
      \<and> Math_round (mul (mul (mul (Fin (fst row)) (lit (snd row))) (lit q)) (lit 0.95)) =
        Fin (of_int \<lfloor>fst row * snd row * q * 0.95 + 1 / 2\<rfloor>))"

text \<open>
  The revenue estimate as the specification states it: the product of quantity and price,
  then the quality multiplier of the grade (1.0 for an unknown grade; none when no grade
  is given), then the volume multiplier (1.12 from 1000 units on, 1.08 from 500 on, else
  none), in this order, each step in binary64 arithmetic, and the result rounded to an
  integer. \<open>whole\<close> says that a Number is an integer.
\<close>

definition spec_grade_multiplier :: "jsval \<Rightarrow> rat option" where
  "spec_grade_multiplier qualityGrade =
     (case qualityGrade of
        Str s \<Rightarrow> if s = [] then None else Some (spec_quality_multiplier (toLowerCase s))
      | _ \<Rightarrow> None)"

definition spec_volume_premium :: "jsnum \<Rightarrow> rat option" where
  "spec_volume_premium quantity =
     (if ge quantity (Fin 1000) then Some 1.12
      else if ge quantity (Fin 500) then Some 1.08
      else None)"

definition times :: "rat option \<Rightarrow> jsnum \<Rightarrow> jsnum" where
  "times multiplier a = (case multiplier of None \<Rightarrow> a | Some c \<Rightarrow> mul a (lit c))"

definition spec_revenue :: "jsnum \<Rightarrow> jsnum \<Rightarrow> jsval \<Rightarrow> jsnum" where
  "spec_revenue quantity pricePerTon qualityGrade =
     Math_round (times (spec_volume_premium quantity)
                   (times (spec_grade_multiplier qualityGrade) (mul quantity pricePerTon)))"

definition whole :: "jsnum \<Rightarrow> bool" where
  "whole a = (case a of Fin x \<Rightarrow> of_int \<lfloor>x\<rfloor> = x | _ \<Rightarrow> False)"

text \<open>
  A key is unrecognized by a table when it is neither one of the table's keys nor the name
  of an inherited property: the keys for which the specification documents a default.
\<close>

definition unrecognized :: "(string \<times> 'a) list \<Rightarrow> string \<Rightarrow> bool" where
  "unrecognized table k = (k \<notin> set (map fst table) \<and> \<not> inherited_key k)"

section \<open>Properties\<close>

subsection \<open>Evaluating binary64 arithmetic\<close>

text \<open>Rewrite rules that let the simplifier run \<open>dbl\<close> and \<open>toFixed1\<close> on numerals.\<close>

lemma bitlen_numeral_step:
  "bitlen (numeral k) = bitlen (numeral k div 2) + 1"
  by (subst compute_bitlen) simp

lemma bitlen_one: "bitlen 1 = 1"
  by (subst compute_bitlen) simp

lemma floor_rat_numeral_div:
  "\<lfloor>numeral a / numeral b :: rat\<rfloor> = numeral a div numeral b"
  by (metis floor_divide_of_int_eq of_int_numeral)

lemma floor_rat_one_div:
  "\<lfloor>1 / numeral b :: rat\<rfloor> = 1 div numeral b"
  by (metis floor_divide_of_int_eq of_int_1 of_int_numeral)

lemma ceiling_rat_numeral_div:
  "\<lceil>numeral a / numeral b :: rat\<rceil> = - (- numeral a div numeral b)"
  by (metis ceiling_def floor_divide_of_int_eq minus_divide_left of_int_minus of_int_numeral)

lemma ceiling_rat_one_div:
  "\<lceil>1 / numeral b :: rat\<rceil> = - (- 1 div numeral b)"
  by (metis ceiling_def floor_divide_of_int_eq minus_divide_left of_int_minus of_int_1 of_int_numeral)

lemmas dbl_eval = dbl_def Let_def ilog2_def pow2_def round_half_even_def mul_def lit_def
  Math_round_def bitlen_numeral_step bitlen_one floor_rat_numeral_div floor_rat_one_div
  ceiling_rat_numeral_div ceiling_rat_one_div

lemma digits:
  "digit_char 0 = CHR ''0''" "digit_char 1 = CHR ''1''" "digit_char 2 = CHR ''2''"
  "digit_char 3 = CHR ''3''" "digit_char 4 = CHR ''4''" "digit_char 5 = CHR ''5''"
  "digit_char 6 = CHR ''6''" "digit_char 7 = CHR ''7''" "digit_char 8 = CHR ''8''"
  "digit_char 9 = CHR ''9''"
  by code_simp+

lemmas text_eval = toFixed1_def fixed1_text_def dec.simps digits

lemma price_literals:
  "lit 1.05 = Fin (4728779608739021 / 4503599627370496)"
  "lit 1.08 = Fin (607985949695017 / 562949953421312)"
  "lit 1.12 = Fin (1261007895663739 / 1125899906842624)"
  "lit 1.03 = Fin (4638707616191611 / 4503599627370496)"
  "lit 1.0 = Fin 1"
  "lit 1.15 = Fin (2589569785738035 / 2251799813685248)"
  "lit 0.85 = Fin (7656119366529843 / 9007199254740992)"
  "lit 0.95 = Fin (4278419646001971 / 4503599627370496)"
  by (simp_all add: dbl_eval)

subsection \<open>Revenue\<close>

text \<open>
  Claim C8. For every price and quality grade the revenue is 0 when the quantity is absent
  or zero, and for every quantity and quality grade it is 0 when the price is absent or
  zero. (The guard comes first, so not even a malformed grade is looked at.)
\<close>

theorem revenue_zero_without_quantity_or_price:
  assumes "quantity = None \<or> quantity = Some (Fin 0)
           \<or> pricePerTon = None \<or> pricePerTon = Some (Fin 0)"
  shows "calculateDynamicRevenue quantity pricePerTon qualityGrade = Inr (Fin 0)"
  using assms by (auto simp: calculateDynamicRevenue_def truthy_num_def is_zero_def)

theorem revenue_zero_without_quantity_or_price_witness:
  "calculateDynamicRevenue (Some (Fin 0)) (Some (Fin 3000)) (Str ''premium'') = Inr (Fin 0)
   \<and> calculateDynamicRevenue None (Some (Fin 3000)) Undefined = Inr (Fin 0)
   \<and> calculateDynamicRevenue (Some (Fin 500)) (Some (Fin 0)) (Num (Fin 1)) = Inr (Fin 0)
   \<and> calculateDynamicRevenue (Some (Fin 500)) None Object = Inr (Fin 0)"
  using revenue_zero_without_quantity_or_price [of "Some (Fin 0)" "Some (Fin 3000)" "Str ''premium''"]
        revenue_zero_without_quantity_or_price [of None "Some (Fin 3000)" Undefined]
        revenue_zero_without_quantity_or_price [of "Some (Fin 500)" "Some (Fin 0)" "Num (Fin 1)"]
        revenue_zero_without_quantity_or_price [of "Some (Fin 500)" None Object]
  by simp

subsection \<open>Compatibility\<close>

lemma opt_toLowerCase_text:
  "text_or_absent v \<Longrightarrow> \<exists>k. opt_toLowerCase v = Inr k \<and> property_key k = lowered_key v
     \<and> search_element k = (case v of Str s \<Rightarrow> Str (toLowerCase s) | _ \<Rightarrow> Undefined)"
  by (cases v) (simp_all add: text_or_absent_def opt_toLowerCase_def property_key_def
      lowered_key_def search_element_def)

lemma quality_lookup:
  "\<not> inherited_key k \<Longrightarrow>
     plus_or_default (IntScore n) (get_prop qualityScores k) 5 = IntScore (n + quality_bonus k)"
  by (simp add: inherited_key_def get_prop_def qualityScores_def plus_or_default_def
      plus_int_def quality_bonus_def)

lemma Math_min_Fin:
  "Math_min (Fin x) (Fin y) = Fin (min x y)"
  by (simp add: Math_min_def is_NaN_def less_def min_def)

text \<open>The search of the materials list, case by case.\<close>

lemma materials_include_cases:
  "materials_include r w =
     (if materials_throw r w then Inl TypeError else Inr (listed r w))"
  by (cases w; cases "materials_needed r")
     (simp_all add: materials_include_def listed_def materials_throw_def text_or_absent_def
        bind_def opt_toLowerCase_def search_element_def search_string_def lowered_element_def
        lowered_key_def)

lemma materials_throw_text:
  "text_or_absent w \<Longrightarrow> materials_needed r \<noteq> MaterialOther \<Longrightarrow> \<not> materials_throw r w"
  by (cases "materials_needed r") (simp_all add: materials_throw_def)

lemma compat_throws:
  "materials_throw requirement wasteType \<Longrightarrow>
     calculateAdvancedCompatibility wasteType quantity qualityGrade requirement = Inl TypeError"
  by (simp add: calculateAdvancedCompatibility_def materials_include_cases bind_def)

text \<open>On well-formed text the code computes the score that the specification describes.\<close>

lemma compat_formula:
  assumes "\<not> materials_throw requirement wasteType" "text_or_absent qualityGrade"
    and "\<not> inherited_key (lowered_key qualityGrade)"
  shows "calculateAdvancedCompatibility wasteType quantity qualityGrade requirement =
     Inr (Fin (of_int (min (50 + (if listed requirement wasteType then 25 else 0)
         + other_bonuses requirement quantity qualityGrade) 98)))"
proof -
  obtain k where k: "opt_toLowerCase qualityGrade = Inr k"
      "property_key k = lowered_key qualityGrade"
    using opt_toLowerCase_text [OF assms(2)] by blast
  show ?thesis
    unfolding calculateAdvancedCompatibility_def materials_include_cases
    using assms(1,3)
    by (simp add: bind_def k Let_def plus_int_def quality_lookup score_number_def
        Math_min_Fin of_int_min capacity_bonus_def urgency_bonus_def other_bonuses_def)
qed

lemma other_bonuses_bounds:
  "5 \<le> other_bonuses r q g \<and> other_bonuses r q g \<le> 38"
  by (simp add: other_bonuses_def capacity_bonus_def quality_bonus_def urgency_bonus_def)

lemma other_bonuses_materials [simp]:
  "other_bonuses (r\<lparr>materials_needed := ms\<rparr>) q g = other_bonuses r q g"
  by (simp add: other_bonuses_def capacity_bonus_def urgency_bonus_def)

lemma no_materials [simp]:
  "\<not> materials_throw (r\<lparr>materials_needed := NoMaterials\<rparr>) w"
  "\<not> listed (r\<lparr>materials_needed := NoMaterials\<rparr>) w"
  by (simp_all add: materials_throw_def listed_def)

text \<open>
  Claim C1 says that the score is an integer in [0, 98] for every input, the ceiling being
  enforced by the clamp. The code breaks this on a quality grade such as
  \<^verbatim>\<open>'constructor'\<close>: \<^verbatim>\<open>qualityScores['constructor']\<close> is the inherited function
  \<^verbatim>\<open>Object\<close>, not \<^verbatim>\<open>undefined\<close>, so the default 5 is not taken, \<^verbatim>\<open>score\<close> becomes the
  String \<^verbatim>\<open>90function Object() { [native code] }8\<close>, and \<^verbatim>\<open>Math.min\<close> of it and 98 is NaN.
\<close>

theorem compatibility_inherited_grade_is_NaN:
  "calculateAdvancedCompatibility (Str ''fly_ash'') (Some (Fin 500)) (Str ''constructor'')
     \<lparr>materials_needed = MaterialArray [Str ''fly_ash''], capacity = Some (Fin 600),
      urgency = Str ''high'', price_offered = Some (Fin 3000)\<rparr> = Inr NaN"
  by code_simp

theorem compatibility_inherited_grade_is_NaN_witness:
  "calculateAdvancedCompatibility (Str ''fly_ash'') (Some (Fin 500)) (Str ''constructor'')
     \<lparr>materials_needed = MaterialArray [Str ''fly_ash''], capacity = Some (Fin 600),
      urgency = Str ''high'', price_offered = Some (Fin 3000)\<rparr> \<noteq> Inr (Fin 98)"
  using compatibility_inherited_grade_is_NaN by simp







subsection \<open>Functions that return\<close>

lemma opt_toLowerCase_replace_text:
  "text_or_absent v \<Longrightarrow> \<exists>k. opt_toLowerCase_replace v = Inr k \<and> property_key k = material_key v"
  by (cases v) (simp_all add: text_or_absent_def opt_toLowerCase_replace_def opt_toLowerCase_def
      property_key_def material_key_def)

lemma compatibility_returns:
  assumes "\<not> materials_throw requirement wasteType" "text_or_absent qualityGrade"
  shows "\<exists>v. calculateAdvancedCompatibility wasteType quantity qualityGrade requirement = Inr v"
proof -
  obtain k where k: "opt_toLowerCase qualityGrade = Inr k"
    using opt_toLowerCase_text [OF assms(2)] by blast
  show ?thesis
    unfolding calculateAdvancedCompatibility_def materials_include_cases
    using assms(1) by (simp add: bind_def k Let_def)
qed

lemma revenue_returns:
  assumes "text_or_absent qualityGrade"
  shows "\<exists>v. calculateDynamicRevenue quantity pricePerTon qualityGrade = Inr v"
  using assms
  by (cases qualityGrade)
     (simp_all add: calculateDynamicRevenue_def text_or_absent_def truthy_def bind_def
        call_toLowerCase_def Let_def)

lemma co2Impact_returns:
  assumes "text_or_absent wasteType"
  shows "\<exists>v. calculateCO2Impact wasteType quantity = Inr v"
proof -
  obtain k where k: "opt_toLowerCase_replace wasteType = Inr k"
    using opt_toLowerCase_replace_text [OF assms] by blast
  show ?thesis
    by (simp add: calculateCO2Impact_def bind_def k Let_def)
qed

lemma pricing_returns:
  assumes "text_or_absent wasteType" "text_or_absent qualityGrade"
  shows "\<exists>v. calculateDynamicPricing wasteType location quantity qualityGrade = Inr v"
proof -
  obtain k where k: "opt_toLowerCase_replace wasteType = Inr k"
    using opt_toLowerCase_replace_text [OF assms(1)] by blast
  obtain g where g: "opt_toLowerCase qualityGrade = Inr g"
    using opt_toLowerCase_text [OF assms(2)] by blast
  show ?thesis
    by (simp add: calculateDynamicPricing_def bind_def k g Let_def split: prod.splits)
qed

lemma distance_returns:
  assumes "text_or_absent location1" "text_or_absent location2"
  shows "\<exists>v. calculateOptimalDistance m location1 location2 = Inr v"
proof -
  obtain k1 where k1: "opt_toLowerCase location1 = Inr k1"
    using opt_toLowerCase_text [OF assms(1)] by blast
  obtain k2 where k2: "opt_toLowerCase location2 = Inr k2"
    using opt_toLowerCase_text [OF assms(2)] by blast
  show ?thesis
    by (simp add: calculateOptimalDistance_def bind_def k1 k2 Let_def)
qed

subsection \<open>Match records\<close>

text \<open>
  Claim C9, amended. Every match record that \<^verbatim>\<open>createMatch\<close> writes has the status
  \<^verbatim>\<open>pending_contact\<close>; its creation timestamp is the first clock reading and its
  expiry is exactly 7 days (7 * 24 * 60 * 60 * 1000 ms) after the second clock reading,
  which \<^verbatim>\<open>Date.now()\<close> takes right after \<^verbatim>\<open>new Date()\<close>. The expiry is exactly 7
  days after the creation timestamp when both readings give the same millisecond.
\<close>

theorem match_record_status_and_expiry:
  assumes "written (createMatch db clock body) = Some m"
  shows "status m = ''pending_contact'' \<and> created_at m = clock 0
       \<and> expires_at m = clock 1 + 7 * 24 * 60 * 60 * 1000
       \<and> (clock 1 = clock 0 \<longrightarrow> expires_at m = created_at m + 7 * 24 * 60 * 60 * 1000)"
  using assms
  by (auto simp: createMatch_def matchData_def bind_def
      split: if_splits sum.splits option.splits prod.splits)

lemma example_compatibility:
  "calculateAdvancedCompatibility (Str ''fly_ash'') (Some (Fin 500)) (Str ''premium'')
     example_requirement = Inr (Fin 98)"
  by code_simp

lemma example_co2Impact:
  "calculateCO2Impact (Str ''fly_ash'') (Some (Fin 500)) =
     Inr \<lparr>co2_saved = ''400.0'', trees_equivalent = Fin 480, carbon_credits = Fin 480000,
          process_description = Some ''Replaces cement production'', cement_offset = ''425.0'',
          water_saved = ''1250.0'', energy_offset = ''840.0'',
          air_quality_improvement = ''150.0''\<rparr>"
  by code_simp

lemma example_revenue:
  "calculateDynamicRevenue (Some (Fin 500)) (Some (Fin 3000)) Undefined = Inr (Fin 1620000)"
  by code_simp

lemma example_fields:
  "listing_type example_listing = Str ''fly_ash''"
  "listing_quantity example_listing = Some (Fin 500)"
  "quality_grade example_listing = Str ''premium''"
  "price_offered example_requirement = Some (Fin 3000)"
  "wasteId example_body = Str ''w1''"
  "requirementId example_body = Str ''r1''"
  "userInfo example_body = Undefined"
  "contactPreference example_body = Undefined"
  by (simp_all add: example_listing_def example_requirement_def example_body_def)

lemma example_matchData:
  "matchData clock example_body example_listing example_requirement =
     Inr \<lparr>waste_id = Str ''w1'', requirement_id = Str ''r1'', waste_data = example_listing,
          requirement_data = example_requirement, match_score = Fin 98,
          status = ''pending_contact'', user_info = Object, contact_preference = Str ''email'',
          created_at = clock 0, expires_at = clock 1 + 7 * 24 * 60 * 60 * 1000,
          estimated_co2_savings = ''400.0'', estimated_revenue = Fin 1620000\<rparr>"
  unfolding matchData_def
  by (simp add: example_fields example_compatibility example_co2Impact example_revenue
      bind_def truthy_def)

lemma example_createMatch:
  "createMatch example_store clock example_body =
     \<lparr>http_status = 200,
      written = Some \<lparr>waste_id = Str ''w1'', requirement_id = Str ''r1'',
          waste_data = example_listing,
          requirement_data = example_requirement, match_score = Fin 98,
          status = ''pending_contact'', user_info = Object, contact_preference = Str ''email'',
          created_at = clock 0, expires_at = clock 1 + 7 * 24 * 60 * 60 * 1000,
          estimated_co2_savings = ''400.0'', estimated_revenue = Fin 1620000\<rparr>\<rparr>"
  unfolding createMatch_def
  by (simp add: example_store_def bind_def example_matchData example_fields truthy_def)

theorem match_record_status_and_expiry_witness:
  "\<exists>m. written (createMatch example_store (\<lambda>i. 1700000000000) example_body) = Some m
       \<and> status m = ''pending_contact''
       \<and> expires_at m = created_at m + 7 * 24 * 60 * 60 * 1000"
proof -
  obtain m where m: "written (createMatch example_store (\<lambda>i. 1700000000000) example_body) = Some m"
    by (simp add: example_createMatch)
  show ?thesis
    using m match_record_status_and_expiry [OF m] by simp
qed

text \<open>
  The claim as stated fails when the clock advances between the two readings: here by one
  millisecond, and the two timestamps are 7 days and 1 ms apart.
\<close>

theorem match_record_clock_tick_counterexample:
  "map_option created_at (written (createMatch example_store
       (\<lambda>i. 1700000000000 + int i) example_body)) = Some 1700000000000
   \<and> map_option expires_at (written (createMatch example_store
       (\<lambda>i. 1700000000000 + int i) example_body)) = Some 1700604800001"
  by (simp add: example_createMatch)

subsection \<open>The rounding error of one operation\<close>

lemma pow2_powi: "pow2 e = 2 powi e"
  by (simp add: pow2_def power_int_def power_one_over)

lemma pow2_pos: "0 < pow2 e"
  by (simp add: pow2_def)

lemma pow2_diff: "pow2 (e - d) = pow2 e / pow2 d"
  by (simp add: pow2_powi power_int_diff)

lemma round_half_even_error: "\<bar>of_int (round_half_even x) - x\<bar> \<le> 1 / 2"
proof -
  have "of_int \<lfloor>x\<rfloor> \<le> x" "x < of_int \<lfloor>x\<rfloor> + 1"
    by linarith+
  then show ?thesis
    by (auto simp: round_half_even_def Let_def)
qed

lemma scale_error:
  fixes a x u :: rat
  assumes "0 < u" and "\<bar>a - x / u\<bar> \<le> 1 / 2"
  shows "\<bar>a * u - x\<bar> \<le> u / 2"
proof -
  have "a * u - x = (a - x / u) * u"
    using assms(1) by (simp add: field_simps)
  then have "\<bar>a * u - x\<bar> = \<bar>a - x / u\<bar> * u"
    using assms(1) by (simp add: abs_mult)
  also have "\<dots> \<le> 1 / 2 * u"
    using assms by (intro mult_right_mono) simp_all
  finally show ?thesis
    by simp
qed

lemma ilog2_bounds:
  assumes "1 \<le> x"
  shows "0 \<le> ilog2 x \<and> pow2 (ilog2 x) \<le> x \<and> x < pow2 (ilog2 x + 1)"
proof -
  let ?m = "\<lfloor>x\<rfloor>"
  have m: "0 < ?m"
    using assms by linarith
  have b: "2 ^ nat (bitlen ?m - 1) \<le> ?m" "?m < 2 ^ nat (bitlen ?m)"
    using bitlen_bounds [OF m] by simp_all
  have p: "1 \<le> bitlen ?m"
    using m bitlen_nonneg [of ?m] bitlen_eq_zero_iff [of ?m] by linarith
  have e: "ilog2 x = bitlen ?m - 1"
    using assms by (simp add: ilog2_def)
  have lo: "(2::rat) ^ nat (bitlen ?m - 1) \<le> x"
  proof -
    have "(of_int (2 ^ nat (bitlen ?m - 1)) :: rat) \<le> of_int ?m"
      using b(1) by (simp only: of_int_le_iff)
    also have "\<dots> \<le> x"
      by linarith
    finally show ?thesis
      by simp
  qed
  have hi: "x < (2::rat) ^ nat (bitlen ?m)"
  proof -
    have "?m + 1 \<le> 2 ^ nat (bitlen ?m)"
      using b(2) by linarith
    then have "(of_int (?m + 1) :: rat) \<le> of_int (2 ^ nat (bitlen ?m))"
      by (simp only: of_int_le_iff)
    moreover have "x < of_int (?m + 1)"
      by simp linarith
    ultimately show ?thesis
      by simp
  qed
  show ?thesis
    using p lo hi by (simp add: e pow2_def)
qed

lemma dbl_error:
  assumes "1 \<le> x" and "x < 2 ^ 62"
  shows "\<exists>v. dbl x = Fin v \<and> \<bar>v - x\<bar> \<le> x / 2 ^ 53"
proof -
  let ?e = "ilog2 x"
  let ?u = "pow2 (?e - 52)"
  let ?n = "round_half_even (x / ?u)"
  have x0: "0 < x"
    using assms(1) by linarith
  have e: "0 \<le> ?e" "pow2 ?e \<le> x"
    using ilog2_bounds [OF assms(1)] by simp_all
  have "(2::rat) ^ nat ?e < 2 ^ 62"
    using e assms(2) by (simp add: pow2_def)
  then have "nat ?e < 62"
    using power_less_imp_less_exp [of "2::rat" "nat ?e" 62] by simp
  then have e_small: "?e < 62"
    by linarith
  have u: "0 < ?u"
    by (rule pow2_pos)
  have u_eq: "?u = pow2 ?e / 2 ^ 52"
    by (simp add: pow2_diff) (simp add: pow2_def)
  have err: "\<bar>of_int ?n * ?u - x\<bar> \<le> ?u / 2"
    using u round_half_even_error [of "x / ?u"] by (rule scale_error)
  have "?u / 2 \<le> x / 2 ^ 53"
    using e(2) by (simp add: u_eq field_simps)
  with err have bound: "\<bar>of_int ?n * ?u - x\<bar> \<le> x / 2 ^ 53"
    by linarith
  have "dbl x = Fin (of_int ?n * ?u)"
    using x0 e e_small by (simp add: dbl_def Let_def max_def)
  with bound show ?thesis
    by blast
qed

subsection \<open>CO2 impact\<close>

lemma coefficient_lookup:
  "\<not> inherited_key k \<Longrightarrow>
     or_default (get_prop coefficients k)
       \<lparr>co2_per_ton = lit 0.5, description = ''General waste material''\<rparr> =
     Own \<lparr>co2_per_ton = lit (fst (spec_co2_coefficient k)),
          description = snd (spec_co2_coefficient k)\<rparr>"
  by (simp add: inherited_key_def get_prop_def coefficients_def or_default_def
      spec_co2_coefficient_def)

lemma co2Impact_formula:
  assumes "text_or_absent wasteType" and "\<not> inherited_key (material_key wasteType)"
  shows "calculateCO2Impact wasteType quantity =
           Inr (co2Impact_rounded (spec_co2_coefficient (material_key wasteType))
                  (ToNumber quantity))"
proof -
  obtain k where k: "opt_toLowerCase_replace wasteType = Inr k"
      "property_key k = material_key wasteType"
    using opt_toLowerCase_replace_text [OF assms(1)] by blast
  show ?thesis
    unfolding calculateCO2Impact_def k(1) bind_def sum.case k(2)
      coefficient_lookup [OF assms(2)]
    by (simp add: field_def co2Impact_rounded_def Let_def ToNumber_def)
qed

lemma fly_ash_key:
  "text_or_absent (Str ''fly_ash'')" "\<not> inherited_key (material_key (Str ''fly_ash''))"
  "spec_co2_coefficient (material_key (Str ''fly_ash'')) = (0.8, ''Replaces cement production'')"
  by (simp add: text_or_absent_def) code_simp+

lemma fly_ash_co2Impact:
  "calculateCO2Impact (Str ''fly_ash'') (Some q) =
     Inr (co2Impact_rounded (0.8, ''Replaces cement production'') q)"
  using co2Impact_formula [OF fly_ash_key(1,2), of "Some q"]
  by (simp only: fly_ash_key(3) ToNumber_def option.case)




subsection \<open>Linearity of the CO2 saving\<close>

lemma tenths_arith:
  fixes v x m t :: rat
  assumes "\<bar>v - x\<bar> \<le> x / 2 ^ 53" "1 \<le> x" "x \<le> m * (13 / 10)" "m \<le> 2 * 10 ^ 12"
    and "\<bar>x - t\<bar> \<le> m / 2 ^ 53"
  shows "0 \<le> v" "v < 10 ^ 21" "10 * t \<le> 10 * v + 1 / 2" "10 * v + 1 / 2 < 10 * t + 1"
proof -
  have p: "(2::rat) ^ 53 = 9007199254740992" "(10::rat) ^ 12 = 1000000000000"
    "(10::rat) ^ 21 = 1000000000000000000000"
    by simp_all
  show "0 \<le> v" "v < 10 ^ 21" "10 * t \<le> 10 * v + 1 / 2" "10 * v + 1 / 2 < 10 * t + 1"
    using assms unfolding abs_le_iff p by linarith+
qed

lemma whole_tons_tenths:
  fixes n :: nat and k :: int and c :: rat
  assumes n: "2 \<le> n" "n \<le> 2 * 10 ^ 12"
    and c: "1 / 2 \<le> c" "c \<le> 13 / 10" "\<bar>c - of_int k / 10\<bar> \<le> 1 / 2 ^ 53"
  shows "toFixed1 (mul (Fin (of_nat n)) (Fin c)) = fixed1_text (k * int n)"
proof -
  let ?n = "of_nat n :: rat"
  let ?x = "?n * c"
  let ?t = "of_int k / 10 * ?n"
  have n2: "2 \<le> ?n"
    using n(1) by simp
  have nb: "?n \<le> 2 * 10 ^ 12"
    using n(2) by (metis of_nat_le_iff of_nat_mult of_nat_numeral of_nat_power)
  have "2 * (1 / 2) \<le> ?n * c"
    using n2 c(1) by (intro mult_mono) simp_all
  then have x1: "1 \<le> ?x"
    by simp
  have xu: "?x \<le> ?n * (13 / 10)"
    using c(2) n2 by (intro mult_left_mono) simp_all
  have "?x \<le> 2 * 10 ^ 12 * (13 / 10)"
    using xu nb by simp
  then have x62: "?x < 2 ^ 62"
    by simp
  obtain v where v: "dbl ?x = Fin v" "\<bar>v - ?x\<bar> \<le> ?x / 2 ^ 53"
    using dbl_error [OF x1 x62] by blast
  have "?x - ?t = ?n * (c - of_int k / 10)"
    by (simp add: algebra_simps)
  then have "\<bar>?x - ?t\<bar> = \<bar>?n\<bar> * \<bar>c - of_int k / 10\<bar>"
    by (simp only: abs_mult)
  also have "\<dots> = ?n * \<bar>c - of_int k / 10\<bar>"
    by simp
  also have "\<dots> \<le> ?n * (1 / 2 ^ 53)"
    using c(3) n2 by (intro mult_left_mono) simp_all
  finally have d: "\<bar>?x - ?t\<bar> \<le> ?n / 2 ^ 53"
    by simp
  note a = tenths_arith [OF v(2) x1 xu nb d]
  have "\<lfloor>10 * v + 1 / 2\<rfloor> = k * int n"
  proof (rule floor_unique)
    show "of_int (k * int n) \<le> 10 * v + 1 / 2"
      using a(3) by simp
    show "10 * v + 1 / 2 < of_int (k * int n) + 1"
      using a(4) by simp
  qed
  then show ?thesis
    using a(1,2) by (simp add: mul_def v(1) toFixed1_def abs_of_nonneg)
qed

lemma whole_tons_tenths_all:
  fixes n :: nat and k :: int and c :: rat
  assumes n: "n \<le> 2 * 10 ^ 12"
    and c: "1 / 2 \<le> c" "c \<le> 13 / 10" "\<bar>c - of_int k / 10\<bar> \<le> 1 / 2 ^ 53"
    and r: "dbl c = Fin c" "\<lfloor>10 * c + 1 / 2\<rfloor> = k"
  shows "toFixed1 (mul (Fin (of_nat n)) (Fin c)) = fixed1_text (k * int n)"
proof -
  consider "n = 0" | "n = 1" | "2 \<le> n"
    by linarith
  then show ?thesis
  proof cases
    case 1
    then show ?thesis
      by (simp add: mul_def dbl_def toFixed1_def floor_rat_one_div)
  next
    case 2
    then show ?thesis
      using c r by (simp add: mul_def toFixed1_def abs_of_nonneg)
  next
    case 3
    then show ?thesis
      using n c by (rule whole_tons_tenths)
  qed
qed

lemma co2_literals:
  "lit 0.8 = Fin (3602879701896397 / 4503599627370496)"
  "lit 0.7 = Fin (3152519739159347 / 4503599627370496)"
  "lit 1.2 = Fin (5404319552844595 / 4503599627370496)"
  "lit 0.6 = Fin (5404319552844595 / 9007199254740992)"
  "lit 0.5 = Fin (1 / 2)"
  by (simp_all add: dbl_eval)

lemma co2_saved_whole_tons:
  assumes "n \<le> 2 * 10 ^ 12"
  shows "toFixed1 (mul (Fin (of_nat n)) (lit (fst (spec_co2_coefficient key)))) =
     fixed1_text (\<lfloor>10 * fst (spec_co2_coefficient key)\<rfloor> * int n)"
proof -
  have 8: "toFixed1 (mul (Fin (of_nat n)) (Fin (3602879701896397 / 4503599627370496))) = fixed1_text (8 * int n)"
    by (rule whole_tons_tenths_all [OF assms]) (simp_all add: dbl_eval)
  have 7: "toFixed1 (mul (Fin (of_nat n)) (Fin (3152519739159347 / 4503599627370496))) = fixed1_text (7 * int n)"
    by (rule whole_tons_tenths_all [OF assms]) (simp_all add: dbl_eval)
  have 12: "toFixed1 (mul (Fin (of_nat n)) (Fin (5404319552844595 / 4503599627370496))) = fixed1_text (12 * int n)"
    by (rule whole_tons_tenths_all [OF assms]) (simp_all add: dbl_eval)
  have 6: "toFixed1 (mul (Fin (of_nat n)) (Fin (5404319552844595 / 9007199254740992))) = fixed1_text (6 * int n)"
    by (rule whole_tons_tenths_all [OF assms]) (simp_all add: dbl_eval)
  have 5: "toFixed1 (mul (Fin (of_nat n)) (Fin (1 / 2))) = fixed1_text (5 * int n)"
    by (rule whole_tons_tenths_all [OF assms]) (simp_all add: dbl_eval)
  show ?thesis
    unfolding spec_co2_coefficient_def if_distrib [of fst] if_distrib [of lit] fst_conv
      co2_literals
    using 8 7 12 6 5 by simp
qed


lemma coefficient_tenths:
  "of_int \<lfloor>10 * fst (spec_co2_coefficient key)\<rfloor> = 10 * fst (spec_co2_coefficient key)"
  by (simp add: spec_co2_coefficient_def)

lemma co2_saved_formula:
  "co2_saved (co2Impact_rounded coefficient q) = toFixed1 (mul q (lit (fst coefficient)))"
  by (simp add: co2Impact_rounded_def Let_def)




subsection \<open>Dynamic pricing\<close>

lemma base_trend_products:
  "mul (Fin 2800) (Fin (4728779608739021 / 4503599627370496)) = Fin 2940"
  "mul (Fin 2200) (Fin (607985949695017 / 562949953421312)) = Fin 2376"
  "mul (Fin 4500) (Fin (1261007895663739 / 1125899906842624)) = Fin (5541538603991041 / 1099511627776)"
  "mul (Fin 1800) (Fin (4638707616191611 / 4503599627370496)) = Fin 1854"
  "mul (Fin 2500) (Fin 1) = Fin 2500"
  by (simp_all add: dbl_eval)

lemma quality_products:
  "mul (Fin 2940) (Fin (2589569785738035 / 2251799813685248)) = Fin (7434897627021311 / 2199023255552)"
  "mul (Fin 2940) (Fin (607985949695017 / 562949953421312)) = Fin (6982338641028711 / 2199023255552)"
  "mul (Fin 2940) (Fin 1) = Fin 2940"
  "mul (Fin 2940) (Fin (7656119366529843 / 9007199254740992)) = Fin 2499"
  "mul (Fin 2376) (Fin (2589569785738035 / 2251799813685248)) = Fin (1502152785867571 / 549755813888)"
  "mul (Fin 2376) (Fin (607985949695017 / 562949953421312)) = Fin (5642869595606877 / 2199023255552)"
  "mul (Fin 2376) (Fin 1) = Fin 2376"
  "mul (Fin 2376) (Fin (7656119366529843 / 9007199254740992)) = Fin (4441147366912819 / 2199023255552)"
  "mul (Fin (5541538603991041 / 1099511627776)) (Fin (2589569785738035 / 2251799813685248)) = Fin (6372769394589697 / 1099511627776)"
  "mul (Fin (5541538603991041 / 1099511627776)) (Fin (607985949695017 / 562949953421312)) = Fin (5984861692310325 / 1099511627776)"
  "mul (Fin (5541538603991041 / 1099511627776)) (Fin 1) = Fin (5541538603991041 / 1099511627776)"
  "mul (Fin (5541538603991041 / 1099511627776)) (Fin (7656119366529843 / 9007199254740992)) = Fin (4710307813392385 / 1099511627776)"
  "mul (Fin 1854) (Fin (2589569785738035 / 2251799813685248)) = Fin (4688537483162419 / 2199023255552)"
  "mul (Fin 1854) (Fin (607985949695017 / 562949953421312)) = Fin (4403148245056881 / 2199023255552)"
  "mul (Fin 1854) (Fin 1) = Fin 1854"
  "mul (Fin 1854) (Fin (7656119366529843 / 9007199254740992)) = Fin (6930881496848793 / 4398046511104)"
  "mul (Fin 2500) (Fin (2589569785738035 / 2251799813685248)) = Fin 2875"
  "mul (Fin 2500) (Fin (607985949695017 / 562949953421312)) = Fin 2700"
  "mul (Fin 2500) (Fin 1) = Fin 2500"
  "mul (Fin 2500) (Fin (7656119366529843 / 9007199254740992)) = Fin 2125"
  by (simp_all add: dbl_eval)

lemma price_table:
  "list_all (\<lambda>row. list_all (price_ok row) quality_multipliers) price_rows"
  unfolding price_rows_def quality_multipliers_def price_ok_def list.pred_inject fst_conv snd_conv
    price_literals
  apply (simp only: base_trend_products)
  apply (simp only: quality_products)
  apply (simp add: dbl_eval)
  done


lemma spec_price_row: "spec_price k \<in> set price_rows"
  by (simp add: spec_price_def price_rows_def)

lemma spec_quality_multiplier_row: "spec_quality_multiplier g \<in> set quality_multipliers"
  by (simp add: spec_quality_multiplier_def quality_multipliers_def)

lemma price_ok_spec: "price_ok (spec_price k) (spec_quality_multiplier g)"
  using price_table spec_price_row [of k] spec_quality_multiplier_row [of g]
  by (simp add: list_all_iff)

lemma price_lookup:
  assumes "\<not> inherited_key k"
  shows "field base (or_default (get_prop basePrices k)
            \<lparr>base = Fin 2500, trend = lit 1.0, volatility = lit 0.10\<rparr>) =
          Some (Fin (fst (spec_price k)))"
    and "field trend (or_default (get_prop basePrices k)
            \<lparr>base = Fin 2500, trend = lit 1.0, volatility = lit 0.10\<rparr>) =
          Some (lit (snd (spec_price k)))"
  using assms
  by (simp_all add: inherited_key_def get_prop_def basePrices_def or_default_def field_def
      spec_price_def)

lemma quality_multiplier_lookup:
  assumes "\<not> inherited_key g"
  shows "number_of (or_default (get_prop qualityMultipliers g) (lit 1.0)) =
          lit (spec_quality_multiplier g)"
  using assms
  by (simp add: inherited_key_def get_prop_def qualityMultipliers_def or_default_def
      number_of_def spec_quality_multiplier_def)

lemma dynamic_price_formula:
  assumes "text_or_absent wasteType" "text_or_absent qualityGrade"
    and "\<not> inherited_key (material_key wasteType)"
    and "\<not> inherited_key (lowered_key qualityGrade)"
  shows "\<exists>r. calculateDynamicPricing wasteType location quantity qualityGrade = Inr r
           \<and> final_price r =
               Fin (of_int \<lfloor>spec_finalPrice (material_key wasteType) (lowered_key qualityGrade)
                              quantity + 1 / 2\<rfloor>)
           \<and> volume_adjustment r = spec_volume_label (spec_volume_tier quantity)
           \<and> spec_volume_tier (Some (Fin 1500)) = Bulk"
proof -
  obtain k where k: "opt_toLowerCase_replace wasteType = Inr k"
      "property_key k = material_key wasteType"
    using opt_toLowerCase_replace_text [OF assms(1)] by blast
  obtain g where g: "opt_toLowerCase qualityGrade = Inr g"
      "property_key g = lowered_key qualityGrade"
    using opt_toLowerCase_text [OF assms(2)] by blast
  let ?row = "spec_price (material_key wasteType)"
  let ?q = "spec_quality_multiplier (lowered_key qualityGrade)"
  have ok: "price_ok ?row ?q"
    by (rule price_ok_spec)
  have tier: "spec_volume_tier (Some (Fin 1500)) = Bulk"
    by (simp add: spec_volume_tier_def ge_def less_def is_NaN_def ToNumber_def)
  show ?thesis
    unfolding calculateDynamicPricing_def k(1) bind_def sum.case g(1) k(2) g(2) Let_def
      price_lookup [OF assms(3)] quality_multiplier_lookup [OF assms(4)]
    using ok tier
    by (simp add: price_ok_def spec_finalPrice_def spec_volume_tier_def
        spec_volume_multiplier_def spec_volume_label_def ToNumber_def)
qed


lemma silica_fume_premium:
  "text_or_absent (Str ''Silica Fume'')" "text_or_absent (Str ''Premium'')"
  "\<not> inherited_key (material_key (Str ''Silica Fume''))"
  "\<not> inherited_key (lowered_key (Str ''Premium''))"
  "material_key (Str ''Silica Fume'') = ''silica_fume''"
  "lowered_key (Str ''Premium'') = ''premium''"
  by (simp_all add: text_or_absent_def) code_simp+

lemma silica_fume_premium_price:
  "spec_finalPrice ''silica_fume'' ''premium'' (Some (Fin 1500)) = 6491.52"
  "spec_volume_tier (Some (Fin 1500)) = Bulk"
  by (simp_all add: spec_finalPrice_def spec_price_def spec_quality_multiplier_def
      spec_volume_multiplier_def spec_volume_tier_def ge_def less_def is_NaN_def ToNumber_def)




subsection \<open>Composition of the revenue multipliers\<close>

lemma is_NaN_iff: "is_NaN a \<longleftrightarrow> a = NaN"
  by (cases a) (simp_all add: is_NaN_def)

lemma dbl_not_NaN: "dbl x \<noteq> NaN"
  by (simp add: dbl_def Let_def)

lemma mul_not_NaN:
  "a \<noteq> NaN \<Longrightarrow> v \<noteq> 0 \<Longrightarrow> mul a (Fin v) \<noteq> NaN"
  by (cases a) (simp_all add: mul_def dbl_not_NaN is_NaN_iff is_zero_def signed_inf_def)

lemma mul_truthy:
  assumes "truthy_num q" "truthy_num p"
  shows "mul (ToNumber q) (ToNumber p) \<noteq> NaN"
proof -
  obtain a b where ab: "q = Some a" "p = Some b" "a \<noteq> NaN" "b \<noteq> NaN"
      "\<not> is_zero a" "\<not> is_zero b"
    using assms by (auto simp: truthy_num_def is_NaN_iff split: option.splits)
  show ?thesis
    using ab(3-6)
    by (cases a; cases b)
       (simp_all add: ab(1,2) ToNumber_def mul_def dbl_not_NaN is_NaN_iff signed_inf_def)
qed

lemma times_grade_not_NaN:
  assumes "a \<noteq> NaN"
  shows "times (spec_grade_multiplier qualityGrade) a \<noteq> NaN"
proof -
  have "mul a (lit (spec_quality_multiplier k)) \<noteq> NaN" for k
    unfolding spec_quality_multiplier_def if_distrib [of lit] price_literals
    using assms by (simp add: mul_not_NaN)
  then show ?thesis
    using assms
    by (cases qualityGrade) (simp_all add: times_def spec_grade_multiplier_def)
qed

lemma times_volume_not_NaN:
  assumes "a \<noteq> NaN"
  shows "times (spec_volume_premium quantity) a \<noteq> NaN"
proof -
  have "mul a (lit 1.12) \<noteq> NaN" "mul a (lit 1.08) \<noteq> NaN"
    unfolding price_literals using assms by (simp_all add: mul_not_NaN)
  then show ?thesis
    using assms by (simp add: times_def spec_volume_premium_def)
qed

lemma Math_round_whole:
  "a \<noteq> NaN \<Longrightarrow> whole (Math_round a) \<or> Math_round a = PosInf \<or> Math_round a = NegInf"
  by (cases a) (simp_all add: Math_round_def whole_def)

lemma spec_revenue_whole:
  assumes "truthy_num quantity" "truthy_num pricePerTon"
  shows "whole (spec_revenue (ToNumber quantity) (ToNumber pricePerTon) qualityGrade)
       \<or> spec_revenue (ToNumber quantity) (ToNumber pricePerTon) qualityGrade = PosInf
       \<or> spec_revenue (ToNumber quantity) (ToNumber pricePerTon) qualityGrade = NegInf"
  unfolding spec_revenue_def
  by (intro Math_round_whole times_volume_not_NaN times_grade_not_NaN mul_truthy assms)

lemma revenue_formula:
  assumes "truthy_num quantity" "truthy_num pricePerTon" "text_or_absent qualityGrade"
    and "\<not> inherited_key (lowered_key qualityGrade)"
  shows "calculateDynamicRevenue quantity pricePerTon qualityGrade =
           Inr (spec_revenue (ToNumber quantity) (ToNumber pricePerTon) qualityGrade)"
proof (cases "truthy qualityGrade")
  case True
  then obtain s where s: "qualityGrade = Str s" "s \<noteq> []"
    using assms(3) by (cases qualityGrade) (simp_all add: truthy_def text_or_absent_def)
  have k: "\<not> inherited_key (toLowerCase s)"
    using assms(4) by (simp add: s lowered_key_def)
  show ?thesis
    unfolding calculateDynamicRevenue_def s call_toLowerCase_def jsval.case bind_def sum.case
      quality_multiplier_lookup [OF k]
    using assms(1,2) s(2)
    by (simp add: truthy_def spec_revenue_def times_def spec_grade_multiplier_def
        spec_volume_premium_def Let_def)
next
  case False
  then have "spec_grade_multiplier qualityGrade = None"
    using assms(3)
    by (cases qualityGrade) (simp_all add: truthy_def text_or_absent_def spec_grade_multiplier_def)
  then show ?thesis
    using assms(1,2) False
    by (simp add: calculateDynamicRevenue_def bind_def spec_revenue_def times_def
        spec_volume_premium_def Let_def)
qed

lemma revenue_scenarios:
  "calculateDynamicRevenue (Some (Fin 1000)) (Some (Fin 3000)) (Str ''premium'') =
     Inr (Fin 3864000)"
  "Math_round (mul (mul (mul (Fin 1000) (Fin 3000)) (lit 1.15)) (lit 1.12)) = Fin 3864000"
  "\<lfloor>(1000 * 3000 * 1.15 * 1.12 :: rat) + 1 / 2\<rfloor> = 3864000"
  "calculateDynamicRevenue (Some (Fin 502)) (Some (Fin 625)) (Str ''premium'') =
     Inr (Fin 389678)"
  "mul (mul (mul (Fin 502) (Fin 625)) (lit 1.15)) (lit 1.08) = Fin 389677.5"
  "Math_round (mul (mul (mul (Fin 502) (Fin 625)) (lit 1.08)) (lit 1.15)) = Fin 389677"
  by code_simp+

text \<open>
  Claim C7. For every quantity and price that are Numbers other than zero and NaN, and
  every quality grade that is a String or absent and not the name of an inherited
  property, the revenue is the product of quantity and price, multiplied first by the
  quality multiplier and then by the volume multiplier, each product rounded to binary64,
  and the result rounded to an integer: it is an integer (or an infinity, when the product
  overflows). In particular \<^verbatim>\<open>revenue(1000, 3000, 'premium')\<close> is
  round(1000 * 3000 * 1.15 * 1.12) = 3,864,000, in binary64 and in exact arithmetic alike.
  The order is observable: \<^verbatim>\<open>revenue(502, 625, 'premium')\<close> is 389678, the rounding of
  313750 * 1.15 * 1.08 = 389677.5, where the multipliers taken in the other order give
  389677.
\<close>

theorem revenue_quality_then_volume_rounded:
  assumes "truthy_num quantity" "truthy_num pricePerTon" "text_or_absent qualityGrade"
    and "\<not> inherited_key (lowered_key qualityGrade)"
  shows "calculateDynamicRevenue quantity pricePerTon qualityGrade =
           Inr (spec_revenue (ToNumber quantity) (ToNumber pricePerTon) qualityGrade)
       \<and> (whole (spec_revenue (ToNumber quantity) (ToNumber pricePerTon) qualityGrade)
          \<or> spec_revenue (ToNumber quantity) (ToNumber pricePerTon) qualityGrade = PosInf
          \<or> spec_revenue (ToNumber quantity) (ToNumber pricePerTon) qualityGrade = NegInf)
       \<and> calculateDynamicRevenue (Some (Fin 1000)) (Some (Fin 3000)) (Str ''premium'') =
           Inr (Fin 3864000)
       \<and> Math_round (mul (mul (mul (Fin 1000) (Fin 3000)) (lit 1.15)) (lit 1.12)) = Fin 3864000
       \<and> \<lfloor>(1000 * 3000 * 1.15 * 1.12 :: rat) + 1 / 2\<rfloor> = 3864000
       \<and> calculateDynamicRevenue (Some (Fin 502)) (Some (Fin 625)) (Str ''premium'') =
           Inr (Fin 389678)
       \<and> mul (mul (mul (Fin 502) (Fin 625)) (lit 1.15)) (lit 1.08) = Fin 389677.5
       \<and> Math_round (mul (mul (mul (Fin 502) (Fin 625)) (lit 1.08)) (lit 1.15)) = Fin 389677"
  using revenue_formula [OF assms] spec_revenue_whole [OF assms(1,2), of qualityGrade]
    revenue_scenarios
  by (intro conjI)

theorem revenue_quality_then_volume_rounded_witness:
  "truthy_num (Some (Fin 500)) \<and> truthy_num (Some (Fin 2.5)) \<and> text_or_absent (Str ''Premium'')
   \<and> \<not> inherited_key (lowered_key (Str ''Premium''))
   \<and> calculateDynamicRevenue (Some (Fin 500)) (Some (Fin 2.5)) (Str ''Premium'') =
       Inr (Fin 1553)
   \<and> mul (mul (mul (Fin 500) (Fin 2.5)) (lit 1.15)) (lit 1.08) = Fin 1552.5"
proof -
  have h1: "truthy_num (Some (Fin 500))" and h2: "truthy_num (Some (Fin 2.5))"
    by (simp_all add: truthy_num_def is_NaN_def is_zero_def)
  have h3: "text_or_absent (Str ''Premium'')"
    by (simp add: text_or_absent_def)
  have h4: "\<not> inherited_key (lowered_key (Str ''Premium''))"
    by code_simp
  have v: "spec_revenue (Fin 500) (Fin 2.5) (Str ''Premium'') = Fin 1553"
    "mul (mul (mul (Fin 500) (Fin 2.5)) (lit 1.15)) (lit 1.08) = Fin 1552.5"
    by code_simp+
  show ?thesis
    using h1 h2 h3 h4 v revenue_quality_then_volume_rounded [OF h1 h2 h3 h4]
    by (simp add: ToNumber_def)
qed

subsection \<open>Defaults and exceptions\<close>

lemma unrecognized_default:
  assumes "unrecognized table k"
  shows "or_default (get_prop table k) d = Own d"
proof -
  have "map_of table k = None"
    using assms by (simp add: map_of_eq_None_iff unrecognized_def)
  then show ?thesis
    using assms by (simp add: unrecognized_def get_prop_def or_default_def inherited_key_def)
qed

lemma unrecognized_keys:
  "unrecognized qualityScores k \<Longrightarrow> quality_bonus k = 5"
  "unrecognized qualityMultipliers k \<Longrightarrow> spec_quality_multiplier k = 1"
  "unrecognized coefficients k \<Longrightarrow> spec_co2_coefficient k = (1 / 2, ''General waste material'')"
  "unrecognized basePrices k \<Longrightarrow> spec_price k = (2500, 1)"
  by (simp_all add: unrecognized_def qualityScores_def quality_bonus_def qualityMultipliers_def
      spec_quality_multiplier_def coefficients_def spec_co2_coefficient_def basePrices_def
      spec_price_def)

lemma unrecognized_not_inherited:
  "unrecognized table k \<Longrightarrow> \<not> inherited_key k"
  by (simp add: unrecognized_def)

lemma compat_default:
  assumes "\<not> materials_throw requirement wasteType" "text_or_absent qualityGrade"
    and "unrecognized qualityScores (lowered_key qualityGrade)"
  shows "calculateAdvancedCompatibility wasteType quantity qualityGrade requirement =
     Inr (Fin (of_int (min (50 + (if listed requirement wasteType then 25 else 0)
         + capacity_bonus requirement quantity + 5 + urgency_bonus requirement) 98)))"
  using compat_formula [OF assms(1,2) unrecognized_not_inherited [OF assms(3)], of quantity]
  by (simp add: other_bonuses_def unrecognized_keys(1) [OF assms(3)])

lemma revenue_default:
  assumes "truthy_num quantity" "truthy_num pricePerTon" "text_or_absent qualityGrade"
    and "unrecognized qualityMultipliers (lowered_key qualityGrade)"
  shows "calculateDynamicRevenue quantity pricePerTon qualityGrade =
     Inr (Math_round (times (spec_volume_premium (ToNumber quantity))
            (times (if truthy qualityGrade then Some 1 else None)
               (mul (ToNumber quantity) (ToNumber pricePerTon)))))"
proof -
  have "spec_grade_multiplier qualityGrade = (if truthy qualityGrade then Some 1 else None)"
    using assms(3) unrecognized_keys(2) [OF assms(4)]
    by (cases qualityGrade)
       (simp_all add: spec_grade_multiplier_def truthy_def text_or_absent_def lowered_key_def)
  then show ?thesis
    using revenue_formula [OF assms(1-3) unrecognized_not_inherited [OF assms(4)]]
    by (simp add: spec_revenue_def)
qed

lemma co2Impact_default:
  assumes "text_or_absent wasteType" "unrecognized coefficients (material_key wasteType)"
  shows "calculateCO2Impact wasteType quantity =
     Inr (co2Impact_rounded (1 / 2, ''General waste material'') (ToNumber quantity))"
  using co2Impact_formula [OF assms(1) unrecognized_not_inherited [OF assms(2)], of quantity]
  by (simp only: unrecognized_keys(3) [OF assms(2)])

lemma distance_default:
  assumes "text_or_absent location1" "text_or_absent location2"
  shows "unrecognized cityCoordinates (lowered_key location1) \<Longrightarrow>
           calculateOptimalDistance m location1 location2 =
           calculateOptimalDistance m (Str ''mumbai'') location2"
    and "unrecognized cityCoordinates (lowered_key location2) \<Longrightarrow>
           calculateOptimalDistance m location1 location2 =
           calculateOptimalDistance m location1 (Str ''pune'')"
proof -
  obtain k1 where k1: "opt_toLowerCase location1 = Inr k1"
      "property_key k1 = lowered_key location1"
    using opt_toLowerCase_text [OF assms(1)] by blast
  obtain k2 where k2: "opt_toLowerCase location2 = Inr k2"
      "property_key k2 = lowered_key location2"
    using opt_toLowerCase_text [OF assms(2)] by blast
  have m: "opt_toLowerCase (Str ''mumbai'') = Inr (Some ''mumbai'')"
      "opt_toLowerCase (Str ''pune'') = Inr (Some ''pune'')"
    by code_simp+
  have c: "or_default (get_prop cityCoordinates ''mumbai'') d =
        Own \<lparr>lat = lit 19.0760, lng = lit 72.8777\<rparr>"
      "or_default (get_prop cityCoordinates ''pune'') d' =
        Own \<lparr>lat = lit 18.5204, lng = lit 73.8567\<rparr>" for d d'
    unfolding get_prop_def cityCoordinates_def or_default_def
    by simp_all
  show "calculateOptimalDistance m location1 location2 =
           calculateOptimalDistance m (Str ''mumbai'') location2"
    if "unrecognized cityCoordinates (lowered_key location1)"
    unfolding calculateOptimalDistance_def k1 k2 m bind_def sum.case property_key_def
      option.case k1(2) [unfolded property_key_def] unrecognized_default [OF that] c
    by (rule refl)
  show "calculateOptimalDistance m location1 location2 =
           calculateOptimalDistance m location1 (Str ''pune'')"
    if "unrecognized cityCoordinates (lowered_key location2)"
    unfolding calculateOptimalDistance_def k1 k2 m bind_def sum.case property_key_def
      option.case k2(2) [unfolded property_key_def] unrecognized_default [OF that] c
    by (rule refl)
qed

lemma pricing_default:
  assumes "text_or_absent wasteType" "text_or_absent qualityGrade"
    and "unrecognized basePrices (material_key wasteType)"
    and "unrecognized qualityMultipliers (lowered_key qualityGrade)"
  shows "\<exists>r. calculateDynamicPricing wasteType location quantity qualityGrade = Inr r
           \<and> final_price r =
               Fin (of_int \<lfloor>2500 * spec_volume_multiplier (spec_volume_tier quantity) + 1 / 2\<rfloor>)"
  using dynamic_price_formula [OF assms(1,2) unrecognized_not_inherited [OF assms(3)]
      unrecognized_not_inherited [OF assms(4)], of location quantity]
  by (auto simp: spec_finalPrice_def unrecognized_keys(4) [OF assms(3)]
      unrecognized_keys(2) [OF assms(4)])

lemma logistics_default:
  "estimateLogisticsCost distance None =
     Inr (Math_round (mul (mul distance (Fin 45)) (lit 1)))"
  by (simp add: estimateLogisticsCost_def ge_def ToNumber_def is_NaN_def)




end
